theory Spec2Isabelle
  imports Complex_Main
begin

section \<open>Text: the string operations the firewall uses\<close>

text \<open>
  A model of the decision firewall of the package \<open>adf\<close>: the claim parser, the
  confidence, evidence and rule checks, the risk scorer, the policy manager, the verdict
  engine, and the interceptor with its audit log, metrics and learning memory.

  Python text is modelled as \<^typ>\<open>string\<close>. Character classes are the ASCII ones:
  a character outside ASCII counts as neither white space, digit, letter nor word
  character, and has no other case. Floating-point numbers are modelled as \<^typ>\<open>real\<close>.
  Calls of the logger are left out. An exception is a value \<open>Inl e\<close>.
\<close>

definition ascii_uppercase :: string where
  "ascii_uppercase = ''ABCDEFGHIJKLMNOPQRSTUVWXYZ''"

definition ascii_lowercase :: string where
  "ascii_lowercase = ''abcdefghijklmnopqrstuvwxyz''"

definition digits :: string where
  "digits = ''0123456789''"

definition whitespace :: string where
  "whitespace = [CHR 0x09, CHR 0x0A, CHR 0x0B, CHR 0x0C, CHR 0x0D,
                 CHR 0x1C, CHR 0x1D, CHR 0x1E, CHR 0x1F, CHR 0x20]"

definition is_space :: "char \<Rightarrow> bool" where
  "is_space c = (c \<in> set whitespace)"

definition is_digit :: "char \<Rightarrow> bool" where
  "is_digit c = (c \<in> set digits)"

text \<open>The class \<open>\w\<close>: letters, digits and the underscore.\<close>

definition is_word :: "char \<Rightarrow> bool" where
  "is_word c = (c \<in> set (ascii_lowercase @ ascii_uppercase @ digits @ ''_''))"

definition lower_char :: "char \<Rightarrow> char" where
  "lower_char c =
     (case map_of (zip ascii_uppercase ascii_lowercase) c of None \<Rightarrow> c | Some d \<Rightarrow> d)"

text \<open>\<open>str.lower()\<close>\<close>

definition lower :: "string \<Rightarrow> string" where
  "lower s = map lower_char s"

text \<open>\<open>str.strip()\<close>: white space removed at both ends.\<close>

definition strip :: "string \<Rightarrow> string" where
  "strip s = rev (dropWhile is_space (rev (dropWhile is_space s)))"

text \<open>\<open>str.split()\<close> with no argument: the maximal runs of non-space characters.\<close>

fun split_acc :: "string \<Rightarrow> string \<Rightarrow> string list" where
  "split_acc acc [] = (if acc = [] then [] else [rev acc])"
| "split_acc acc (c # cs) =
     (if is_space c
      then (if acc = [] then split_acc [] cs else rev acc # split_acc [] cs)
      else split_acc (c # acc) cs)"

definition str_split :: "string \<Rightarrow> string list" where
  "str_split s = split_acc [] s"

text \<open>\<open>sep.join(xs)\<close>\<close>

fun join :: "string \<Rightarrow> string list \<Rightarrow> string" where
  "join sep [] = []"
| "join sep [x] = x"
| "join sep (x # y # ys) = x @ sep @ join sep (y # ys)"

section \<open>Regular expressions\<close>

text \<open>
  The fragment of Python's \<open>re\<close> syntax that the patterns of the firewall are written
  in. \<open>Bnd\<close> is \<open>\b\<close>, \<open>Eos\<close> is \<open>$\<close>, \<open>Dot\<close> is \<open>.\<close>, \<open>Cls\<close> and \<open>NCls\<close> are
  \<open>[...]\<close> and \<open>[^...]\<close>, \<open>Dig\<close>, \<open>Spc\<close>, \<open>Wrd\<close> are \<open>\d\<close>, \<open>\s\<close>, \<open>\w\<close>.
\<close>

datatype rx =
    Eps
  | Lit char
  | Cls "char list"
  | NCls "char list"
  | Dig
  | Spc
  | Wrd
  | Dot
  | Bnd
  | Eos
  | Seq rx rx
  | Alt rx rx
  | Star rx

text \<open>A position in the subject: the character before it (if any) and the rest.\<close>

type_synonym pos = "char option \<times> string"

fun step :: "(char \<Rightarrow> bool) \<Rightarrow> pos \<Rightarrow> pos list" where
  "step p (prev, []) = []"
| "step p (prev, c # cs) = (if p c then [(Some c, cs)] else [])"

definition at_boundary :: "pos \<Rightarrow> bool" where
  "at_boundary st =
     ((case fst st of None \<Rightarrow> False | Some c \<Rightarrow> is_word c)
      \<noteq> (case snd st of [] \<Rightarrow> False | c # _ \<Rightarrow> is_word c))"

text \<open>Comparison of a pattern character with a subject character; \<open>ic\<close> is \<open>re.IGNORECASE\<close>.\<close>

definition same_char :: "bool \<Rightarrow> char \<Rightarrow> char \<Rightarrow> bool" where
  "same_char ic a c = (if ic then lower_char c = lower_char a else c = a)"

text \<open>
  \<open>ends ic r st\<close> lists the positions where a match of \<open>r\<close> that starts at \<open>st\<close> can
  end, in the order in which a backtracking matcher tries them (the left alternative
  first, the longest repetition first).
\<close>

function ends :: "bool \<Rightarrow> rx \<Rightarrow> pos \<Rightarrow> pos list" where
  "ends ic Eps st = [st]"
| "ends ic (Lit a) st = step (same_char ic a) st"
| "ends ic (Cls as) st = step (\<lambda>c. list_ex (\<lambda>a. same_char ic a c) as) st"
| "ends ic (NCls as) st = step (\<lambda>c. \<not> list_ex (\<lambda>a. same_char ic a c) as) st"
| "ends ic Dig st = step is_digit st"
| "ends ic Spc st = step is_space st"
| "ends ic Wrd st = step is_word st"
| "ends ic Dot st = step (\<lambda>c. c \<noteq> CHR 0x0A) st"
| "ends ic Bnd st = (if at_boundary st then [st] else [])"
| "ends ic Eos st = (if snd st = [] \<or> snd st = [CHR 0x0A] then [st] else [])"
| "ends ic (Seq r1 r2) st = concat (map (ends ic r2) (ends ic r1 st))"
| "ends ic (Alt r1 r2) st = ends ic r1 st @ ends ic r2 st"
| "ends ic (Star r) st =
     concat (map (\<lambda>st'. if length (snd st') < length (snd st) then ends ic (Star r) st' else [])
                 (ends ic r st)) @ [st]"
  by pat_completeness auto
termination
  by (relation "inv_image (less_than <*lex*> less_than) (\<lambda>(ic, r, st). (size r, length (snd st)))")
     auto

text \<open>\<open>re.search\<close>: is there a match starting anywhere in the subject?\<close>

fun search_from :: "bool \<Rightarrow> rx \<Rightarrow> pos \<Rightarrow> bool" where
  "search_from ic r (prev, []) = (ends ic r (prev, []) \<noteq> [])"
| "search_from ic r (prev, c # cs) =
     (ends ic r (prev, c # cs) \<noteq> [] \<or> search_from ic r (Some c, cs))"

definition re_search :: "bool \<Rightarrow> rx \<Rightarrow> string \<Rightarrow> bool" where
  "re_search ic r s = search_from ic r (None, s)"

text \<open>
  \<open>re.split\<close> for a pattern without groups and without flags. At each position the
  first match that consumes a character ends the current piece; the delimiter of the
  claim parser cannot match the empty string.
\<close>

function split_from :: "rx \<Rightarrow> string \<Rightarrow> pos \<Rightarrow> string list" where
  "split_from r acc (prev, []) = [rev acc]"
| "split_from r acc (prev, c # cs) =
     (case find (\<lambda>st'. length (snd st') < Suc (length cs)) (ends False r (prev, c # cs)) of
        Some st' \<Rightarrow> rev acc # split_from r [] st'
      | None \<Rightarrow> split_from r (c # acc) (Some c, cs))"
  by pat_completeness auto
termination
  by (relation "measure (\<lambda>(r, acc, st). length (snd st))") (auto simp: find_Some_iff)

definition re_split :: "rx \<Rightarrow> string \<Rightarrow> string list" where
  "re_split r s = split_from r [] (None, s)"

text \<open>Pattern combinators: a literal string, a sequence, an alternation, \<open>r+\<close>.\<close>

fun lits :: "string \<Rightarrow> rx" where
  "lits [] = Eps"
| "lits [c] = Lit c"
| "lits (c # cs) = Seq (Lit c) (lits cs)"

fun seqs :: "rx list \<Rightarrow> rx" where
  "seqs [] = Eps"
| "seqs [r] = r"
| "seqs (r # rs) = Seq r (seqs rs)"

fun alts :: "rx list \<Rightarrow> rx" where
  "alts [] = NCls []"
| "alts [r] = r"
| "alts (r # rs) = Alt r (alts rs)"

definition Plus :: "rx \<Rightarrow> rx" where
  "Plus r = Seq r (Star r)"

definition words :: "string list \<Rightarrow> rx" where
  "words ws = alts (map lits ws)"


section \<open>Data model (\<open>adf/models.py\<close>, \<open>adf/config.py\<close>)\<close>

datatype py_error = ValidationError | KeyError string

text \<open>
  Formatted text. An f-string is the list of its pieces: literal text, a number printed
  with two or three decimals (\<open>:.2f\<close>, \<open>:.3f\<close>), an integer, a float printed by
  \<open>str\<close>, a pattern.
\<close>

datatype frag = Txt string | Fix2 real | Fix3 real | Num nat | Flt real | Pattern rx

type_synonym message = "frag list"

datatype Verdict = ALLOW | BLOCK | REQUIRE_EVIDENCE | REQUIRE_HUMAN_REVIEW

fun verdict_value :: "Verdict \<Rightarrow> string" where
  "verdict_value ALLOW = ''ALLOW''"
| "verdict_value BLOCK = ''BLOCK''"
| "verdict_value REQUIRE_EVIDENCE = ''REQUIRE_EVIDENCE''"
| "verdict_value REQUIRE_HUMAN_REVIEW = ''REQUIRE_HUMAN_REVIEW''"

text \<open>The values of the enumeration \<open>IntendedAction\<close>.\<close>

definition valid_actions :: "string list" where
  "valid_actions = [''answer'', ''email'', ''trade'', ''execute_code'']"

record FirewallRequest =
  ai_output :: string
  confidence :: real
  intended_action :: string
  sources :: "string list option"

definition validate_action :: "string \<Rightarrow> py_error + string" where
  "validate_action v = (if lower v \<notin> set valid_actions then Inl ValidationError else Inr (lower v))"

text \<open>
  The constructor of \<open>FirewallRequest\<close>: the field constraint \<open>ge=0.0, le=1.0\<close> on the
  confidence and the validator of the action, which stores the lower-cased action.
\<close>

definition FirewallRequest_new ::
  "string \<Rightarrow> real \<Rightarrow> string \<Rightarrow> string list option \<Rightarrow> py_error + FirewallRequest" where
  "FirewallRequest_new out c a srcs =
     (if \<not> (0 \<le> c \<and> c \<le> 1) then Inl ValidationError
      else case validate_action a of
             Inl e \<Rightarrow> Inl e
           | Inr a' \<Rightarrow> Inr \<lparr>ai_output = out, confidence = c, intended_action = a', sources = srcs\<rparr>)"

text \<open>The requests that the constructor accepts and returns unchanged.\<close>

definition valid_request :: "FirewallRequest \<Rightarrow> bool" where
  "valid_request r =
     (FirewallRequest_new (ai_output r) (confidence r) (intended_action r) (sources r) = Inr r)"

record Claim =
  claim_text :: string
  is_factual :: bool
  c_confidence :: real

record CheckResult =
  check_name :: string
  passed :: bool
  cr_reason :: message

record check_flag =
  flag_passed :: bool
  flag_result :: string

record checks_info =
  evidence_flag :: check_flag
  rules_flag :: check_flag
  confidence_alignment_flag :: check_flag

record sources_info =
  src_count :: nat
  src_provided :: bool

record details_info =
  d_claims :: "Claim list"
  claim_count :: nat
  factual_claim_count :: nat
  d_risk_score :: real
  risk_level :: string
  checks :: checks_info
  check_results :: "CheckResult list"
  d_sources :: sources_info

record FirewallResponse =
  verdict :: Verdict
  reason :: message
  risk_score :: real
  details :: details_info
  failed_checks :: "string list"
  explanation :: message
  confidence_alignment :: bool
  applied_policies :: "string list"
  escalation_reason :: "message option"

definition CONFIDENCE_THRESHOLD_EVIDENCE_REQUIRED :: real where
  "CONFIDENCE_THRESHOLD_EVIDENCE_REQUIRED = 0.6"

definition CONFIDENCE_THRESHOLD_HIGH :: real where
  "CONFIDENCE_THRESHOLD_HIGH = 0.8"

definition CONFIDENCE_THRESHOLD_LOW :: real where
  "CONFIDENCE_THRESHOLD_LOW = 0.3"

definition ACTION_IMPACT :: "(string \<times> real) list" where
  "ACTION_IMPACT = [(''answer'', 0.2), (''email'', 0.5), (''trade'', 0.9), (''execute_code'', 0.95)]"

definition RISK_THRESHOLD_LOW :: real where
  "RISK_THRESHOLD_LOW = 0.3"

definition RISK_THRESHOLD_MEDIUM :: real where
  "RISK_THRESHOLD_MEDIUM = 0.6"

definition RISK_THRESHOLD_HIGH :: real where
  "RISK_THRESHOLD_HIGH = 0.8"

definition DEFAULT_ACTION_IMPACT :: real where
  "DEFAULT_ACTION_IMPACT = 0.5"

definition LEARNING_ENABLED :: bool where
  "LEARNING_ENABLED = True"

section \<open>Claim parser (\<open>adf/firewall/claim_parser.py\<close>)\<close>

definition FACTUAL_PATTERNS :: "rx list" where
  "FACTUAL_PATTERNS =
    [seqs [Bnd, words [''was'', ''were'', ''is'', ''are'', ''has'', ''have'', ''had''], Plus Spc,
           words [''founded'', ''created'', ''established'', ''invented'', ''discovered'',
                  ''made'', ''built'']],
     seqs [Bnd, words [''in'', ''on'', ''at'', ''during''], Plus Spc, Dig, Dig, Dig, Dig],
     seqs [Bnd, words [''founded'', ''created'', ''established'', ''invented'', ''discovered''],
           Plus Spc, words [''in'', ''on'', ''at'']],
     seqs [Bnd, words [''makes'', ''produces'', ''manufactures'', ''sells'', ''owns'']],
     seqs [Bnd, words [''according to'', ''based on'', ''per'', ''as stated in'']],
     seqs [Bnd, words [''the'', ''a'', ''an''], Plus Spc, Plus Wrd, Plus Spc,
           words [''is'', ''was'', ''are'', ''were'']]]"

text \<open>\<open>[.!?]+(?:\s+|$)\<close>\<close>

definition SENTENCE_DELIMITERS :: rx where
  "SENTENCE_DELIMITERS = Seq (Plus (Cls ''.!?'')) (Alt (Plus Spc) Eos)"

text \<open>The patterns joined by \<open>|\<close> and compiled with \<open>re.IGNORECASE\<close>.\<close>

definition factual_regex :: rx where
  "factual_regex = alts FACTUAL_PATTERNS"

text \<open>The body of the loop over the sentences: \<open>None\<close> is \<open>continue\<close>.\<close>

definition claim_of_sentence :: "real \<Rightarrow> string \<Rightarrow> Claim option" where
  "claim_of_sentence overall_confidence sentence =
     (if sentence = [] then None
      else
        let is_fact = re_search True factual_regex sentence;
            claim_confidence = overall_confidence;
            is_fact = (if \<not> is_fact then (if re_search False (Plus Dig) sentence then True else is_fact)
                       else is_fact)
        in if length (str_split sentence) < 3 then None
           else Some \<lparr>claim_text = sentence, is_factual = is_fact, c_confidence = claim_confidence\<rparr>)"

definition parse :: "string \<Rightarrow> real \<Rightarrow> Claim list" where
  "parse txt overall_confidence =
     (if txt = [] \<or> strip txt = [] then []
      else
        let sentences = re_split SENTENCE_DELIMITERS txt;
            sentences = map strip (filter (\<lambda>s. strip s \<noteq> []) sentences)
        in List.map_filter (claim_of_sentence overall_confidence) sentences)"

definition is_factual_claim :: "string \<Rightarrow> bool" where
  "is_factual_claim txt = re_search True factual_regex txt"

section \<open>Confidence checker (\<open>adf/firewall/confidence.py\<close>)\<close>

definition requires_evidence :: "real \<Rightarrow> bool" where
  "requires_evidence c = (c > CONFIDENCE_THRESHOLD_EVIDENCE_REQUIRED)"

definition is_high_confidence :: "real \<Rightarrow> bool" where
  "is_high_confidence c = (c \<ge> CONFIDENCE_THRESHOLD_HIGH)"

definition is_low_confidence :: "real \<Rightarrow> bool" where
  "is_low_confidence c = (c < CONFIDENCE_THRESHOLD_LOW)"

definition validate_confidence_alignment :: "real \<Rightarrow> Claim list \<Rightarrow> bool \<times> message" where
  "validate_confidence_alignment overall_confidence claims =
     (if claims = [] then (True, [Txt ''No claims to validate''])
      else
        let high_confidence_factual =
              filter (\<lambda>c. is_factual c \<and> c_confidence c > CONFIDENCE_THRESHOLD_EVIDENCE_REQUIRED) claims
        in if high_confidence_factual \<noteq> [] \<and> overall_confidence > CONFIDENCE_THRESHOLD_EVIDENCE_REQUIRED
           then (False, [Txt ''High confidence factual claims detected''])
           else if overall_confidence > CONFIDENCE_THRESHOLD_HIGH
                   \<and> length (filter is_factual claims) = 0
           then (True, [Txt ''High confidence on non-factual content is acceptable''])
           else (True, [Txt ''Confidence alignment validated'']))"

definition calculate_uncertainty :: "real \<Rightarrow> real" where
  "calculate_uncertainty c = 1.0 - c"

section \<open>Evidence checker (\<open>adf/firewall/evidence.py\<close>)\<close>

definition check_evidence :: "Claim list \<Rightarrow> string list option \<Rightarrow> bool \<times> message \<times> string list" where
  "check_evidence claims sources_opt =
     (let srcs = (case sources_opt of None \<Rightarrow> [] | Some ss \<Rightarrow> ss);
          high_confidence_factual =
            filter (\<lambda>c. is_factual c \<and> c_confidence c > CONFIDENCE_THRESHOLD_EVIDENCE_REQUIRED) claims
      in if high_confidence_factual = []
         then (True, [Txt ''No high-confidence factual claims requiring evidence''], [])
         else if \<not> (length srcs > 0)
         then (False,
               [Txt ''High confidence factual claims require evidence but no sources provided''],
               map claim_text high_confidence_factual)
         else
           let valid_sources = filter (\<lambda>s. s \<noteq> [] \<and> strip s \<noteq> []) srcs
           in if valid_sources = []
              then (False, [Txt ''Sources provided but all are empty''], map claim_text high_confidence_factual)
              else
                let min_sources = max 1 (length high_confidence_factual div 3)
                in if length valid_sources < min_sources
                   then (False,
                         [Txt ''Insufficient sources: '', Num (length valid_sources),
                          Txt '' provided, '', Num min_sources, Txt '' required for '',
                          Num (length high_confidence_factual), Txt '' factual claims''],
                         map claim_text high_confidence_factual)
                   else (True,
                         [Txt ''Evidence check passed: '', Num (length valid_sources),
                          Txt '' sources for '', Num (length high_confidence_factual),
                          Txt '' factual claims''],
                         []))"

definition validate_source_quality :: "string list \<Rightarrow> bool \<times> message" where
  "validate_source_quality srcs =
     (if srcs = [] then (True, [Txt ''No sources to validate''])
      else
        let empty_count = length (filter (\<lambda>s. s = [] \<or> strip s = []) srcs)
        in if empty_count > 0
           then (False, [Num empty_count, Txt '' empty source(s) detected''])
           else
             let too_short = filter (\<lambda>s. length (strip s) < 5) srcs
             in if too_short \<noteq> []
                then (False, [Num (length too_short), Txt '' source(s) are too short to be meaningful''])
                else (True, [Txt ''Source quality validated'']))"


section \<open>Rules engine (\<open>adf/firewall/rules.py\<close>)\<close>

definition HIGH_IMPACT_ACTIONS :: "string set" where
  "HIGH_IMPACT_ACTIONS = {''trade'', ''execute_code''}"

definition HIGH_IMPACT_CONFIDENCE_THRESHOLD :: real where
  "HIGH_IMPACT_CONFIDENCE_THRESHOLD = 0.8"

definition unsafe_patterns :: "rx list" where
  "unsafe_patterns =
    [seqs [Bnd, alts [lits ''delete'', lits ''drop'', lits ''truncate'', lits ''format'',
                      seqs [lits ''rm'', Plus Spc, lits ''-rf'']], Plus Spc],
     seqs [Bnd, words [''sudo'', ''admin'', ''root''], Plus Spc],
     seqs [Bnd, words [''password'', ''secret'', ''key'', ''token''], Star Spc, Lit CHR ''='',
           Star Spc, Cls [CHR 0x22, CHR 0x27]],
     seqs [lits ''<script'', Star (NCls ''>''), Lit CHR ''>''],
     seqs [lits ''eval'', Star Spc, Lit CHR ''(''],
     seqs [lits ''exec'', Star Spc, Lit CHR ''('']]"

definition harmful_patterns :: "rx list" where
  "harmful_patterns =
    [seqs [Bnd, words [''kill'', ''terminate'', ''destroy'', ''remove''], Plus Spc],
     seqs [Bnd, words [''transfer'', ''send'', ''move''], Plus Spc, Lit CHR ''$'', Plus Dig],
     seqs [Bnd, words [''execute'', ''run'', ''call''], Plus Spc, Star Dot, Bnd,
           words [''dangerous'', ''unsafe'', ''risky'']]]"

text \<open>\<open>\$\s*\d{6,}\<close>\<close>

definition large_amount_pattern :: rx where
  "large_amount_pattern = seqs [Lit CHR ''$'', Star Spc, Dig, Dig, Dig, Dig, Dig, Dig, Star Dig]"

text \<open>\<open>\b(?:system|os|subprocess|shell)\s*\.\<close>\<close>

definition system_ops_pattern :: rx where
  "system_ops_pattern =
     seqs [Bnd, words [''system'', ''os'', ''subprocess'', ''shell''], Star Spc, Lit CHR ''.'']"

definition check_unsafe_patterns :: "string \<Rightarrow> bool \<times> message" where
  "check_unsafe_patterns txt =
     (case find (\<lambda>p. re_search True p txt) unsafe_patterns of
        Some p \<Rightarrow> (False, [Txt ''Unsafe pattern detected: '', Pattern p])
      | None \<Rightarrow> (True, [Txt ''No unsafe patterns detected'']))"

definition check_harmful_actions :: "string \<Rightarrow> string \<Rightarrow> bool \<times> message" where
  "check_harmful_actions txt action_type =
     (case find (\<lambda>p. re_search True p txt) harmful_patterns of
        Some p \<Rightarrow> (False, [Txt ''Potentially harmful action detected: '', Pattern p])
      | None \<Rightarrow>
          if action_type = ''trade'' \<and> re_search False large_amount_pattern txt
          then (False, [Txt ''Large trade amount detected without proper safeguards''])
          else if action_type = ''execute_code'' \<and> re_search True system_ops_pattern txt
          then (False, [Txt ''System-level operations detected in code execution''])
          else (True, [Txt ''No harmful actions detected'']))"

definition check_contradictions :: "Claim list \<Rightarrow> bool \<times> message" where
  "check_contradictions claims =
     (let factual_claims = map (\<lambda>c. lower (claim_text c)) (filter is_factual claims)
      in if length factual_claims > 1 \<and> length factual_claims \<noteq> length (remdups factual_claims)
         then (False, [Txt ''Duplicate claims detected''])
         else (True, [Txt ''No contradictions detected'']))"

definition check_rules :: "Claim list \<Rightarrow> string \<Rightarrow> string \<Rightarrow> bool \<times> message \<times> string list" where
  "check_rules claims output action =
     (let unsafe_check = check_unsafe_patterns output;
          failed_rules = (if \<not> fst unsafe_check then [''unsafe_patterns''] else []);
          failed_rules =
            (if action \<in> set [''trade'', ''execute_code'']
             then (let harmful_check = check_harmful_actions output action
                   in if \<not> fst harmful_check then failed_rules @ [''harmful_actions'']
                      else failed_rules)
             else failed_rules);
          contradiction_check = check_contradictions claims;
          failed_rules =
            (if \<not> fst contradiction_check then failed_rules @ [''contradictions'']
             else failed_rules)
      in if failed_rules \<noteq> []
         then (False, [Txt ''Rules violated: '', Txt (join '', '' failed_rules)], failed_rules)
         else (True, [Txt ''All rules passed''], []))"

definition requires_human_review_for_high_impact :: "string \<Rightarrow> real \<Rightarrow> bool \<Rightarrow> bool \<times> message" where
  "requires_human_review_for_high_impact action c has_evidence =
     (if lower action \<notin> HIGH_IMPACT_ACTIONS then (False, [Txt ''Not a high-impact action''])
      else if c < HIGH_IMPACT_CONFIDENCE_THRESHOLD \<or> \<not> has_evidence
      then (True,
            [Txt ''High-impact action ('', Txt action, Txt '') requires human review. '',
             Txt ''Confidence ('', Fix2 c, Txt '') is below threshold ('',
             Flt HIGH_IMPACT_CONFIDENCE_THRESHOLD, Txt '') '',
             Txt ''or evidence is missing.''])
      else (False, [Txt ''High-impact action meets confidence and evidence requirements'']))"

section \<open>Risk scorer (\<open>adf/firewall/risk.py\<close>)\<close>

definition calculate_risk_score :: "real \<Rightarrow> string \<Rightarrow> Claim list \<Rightarrow> bool \<Rightarrow> real" where
  "calculate_risk_score c action claims has_evidence =
     (let uncertainty = calculate_uncertainty c;
          action_impact = (case map_of ACTION_IMPACT (lower action) of
                             Some i \<Rightarrow> i | None \<Rightarrow> DEFAULT_ACTION_IMPACT);
          evidence_factor =
            (if \<not> has_evidence
             then (let factual_claims = filter is_factual claims
                   in if factual_claims \<noteq> []
                      then (let high_conf_factual = filter (\<lambda>c. c_confidence c > 0.6) factual_claims
                            in if high_conf_factual \<noteq> [] then 1.5 else 1.0)
                      else 1.0)
             else 1.0);
          base_risk = uncertainty * action_impact * evidence_factor;
          claim_factor = 1.0 + (real (length claims) * 0.05);
          claim_factor = min claim_factor 1.3;
          risk = base_risk * claim_factor
      in min 1.0 (max 0.0 risk))"

definition get_risk_level :: "real \<Rightarrow> string" where
  "get_risk_level risk =
     (if risk < 0.3 then ''low''
      else if risk < 0.6 then ''medium''
      else if risk < 0.8 then ''high''
      else ''critical'')"

section \<open>Policy manager (\<open>adf/compliance/policy.py\<close>)\<close>

datatype PolicyMode = GENERAL_AI | FINANCIAL_SERVICES | HEALTHCARE | LEGAL

fun mode_value :: "PolicyMode \<Rightarrow> string" where
  "mode_value GENERAL_AI = ''GENERAL_AI''"
| "mode_value FINANCIAL_SERVICES = ''FINANCIAL_SERVICES''"
| "mode_value HEALTHCARE = ''HEALTHCARE''"
| "mode_value LEGAL = ''LEGAL''"

record PolicyManager =
  mode :: PolicyMode
  mandatory_review_actions :: "string set"
  confidence_threshold_evidence_required :: real
  risk_threshold_medium :: real

text \<open>The constructor: \<open>__init__\<close> with \<open>_setup_policies\<close>.\<close>

fun PolicyManager_new :: "PolicyMode \<Rightarrow> PolicyManager" where
  "PolicyManager_new GENERAL_AI =
     \<lparr>mode = GENERAL_AI, mandatory_review_actions = {''trade'', ''execute_code''},
      confidence_threshold_evidence_required = 0.6, risk_threshold_medium = 0.6\<rparr>"
| "PolicyManager_new FINANCIAL_SERVICES =
     \<lparr>mode = FINANCIAL_SERVICES, mandatory_review_actions = {''trade'', ''execute_code''},
      confidence_threshold_evidence_required = 0.7, risk_threshold_medium = 0.5\<rparr>"
| "PolicyManager_new HEALTHCARE =
     \<lparr>mode = HEALTHCARE, mandatory_review_actions = {''medical'', ''execute_code'', ''trade''},
      confidence_threshold_evidence_required = 0.8, risk_threshold_medium = 0.4\<rparr>"
| "PolicyManager_new LEGAL =
     \<lparr>mode = LEGAL, mandatory_review_actions = {''legal'', ''execute_code'', ''trade''},
      confidence_threshold_evidence_required = 0.8, risk_threshold_medium = 0.4\<rparr>"

definition requires_mandatory_review :: "PolicyManager \<Rightarrow> string \<Rightarrow> bool \<times> message" where
  "requires_mandatory_review pm action =
     (let action_lower = lower action
      in if action_lower \<in> mandatory_review_actions pm
         then (True,
               [Txt ''Governance rule: '', Txt action,
                Txt '' actions require mandatory human review '',
                Txt ''in '', Txt (mode_value (mode pm)),
                Txt '' policy mode. This requirement cannot be overridden by '',
                Txt ''high confidence or evidence presence.''])
         else (False, []))"

section \<open>Verdict engine (\<open>adf/firewall/verdict.py\<close>)\<close>

definition determine_verdict ::
  "real \<Rightarrow> bool \<Rightarrow> bool \<Rightarrow> bool \<Rightarrow> string list \<Rightarrow> string \<Rightarrow> real \<Rightarrow> Claim list
     \<Rightarrow> bool \<Rightarrow> message \<Rightarrow> bool \<Rightarrow> message
     \<Rightarrow> Verdict \<times> message \<times> message \<times> string list \<times> message option" where
  "determine_verdict risk evidence_passed rules_passed confidence_aligned failed action c claims
       high_impact_review_required high_impact_review_reason
       governance_review_required governance_reason =
     (if governance_review_required
      then (REQUIRE_HUMAN_REVIEW,
            [Txt ''Governance rule: mandatory human review required''],
            [Txt ''This '', Txt action,
             Txt '' action requires mandatory human review due to governance policy. '',
             Txt ''This requirement cannot be overridden by high confidence, evidence, or low risk scores. '']
              @ governance_reason,
            [''mandatory_governance_review''], Some governance_reason)
      else if \<not> rules_passed
      then (BLOCK,
            [Txt ''Safety rules violated - output contains unsafe patterns or harmful actions''],
            [Txt ''Blocked because the output contains unsafe patterns or harmful actions '',
             Txt ''that violate safety rules. The '', Txt action, Txt '' action cannot proceed.''],
            [''safety_rules''], None)
      else if risk \<ge> RISK_THRESHOLD_HIGH \<and> action \<in> set [''trade'', ''execute_code'']
      then (BLOCK,
            [Txt ''Critical risk score ('', Fix2 risk, Txt '') for high-impact action ('',
             Txt action, Txt '')''],
            [Txt ''Blocked because the risk score ('', Fix2 risk,
             Txt '') is critical for a high-impact action '',
             Txt ''('', Txt action, Txt ''). The system cannot proceed without human oversight.''],
            [''high_risk_block''], None)
      else if \<not> evidence_passed
      then (let factual_count = length (filter is_factual claims)
            in if risk \<ge> RISK_THRESHOLD_MEDIUM
               then (BLOCK,
                     [Txt ''High confidence factual claims without evidence and medium+ risk''],
                     [Txt ''Blocked because the model expressed '', Fix2 c, Txt '' confidence in '',
                      Num factual_count, Txt '' '',
                      Txt ''factual claim(s) without providing evidence, violating grounding rules. '',
                      Txt ''Additionally, the risk score ('', Fix2 risk,
                      Txt '') exceeds the medium threshold.''],
                     [''evidence_requirement''], None)
               else (REQUIRE_EVIDENCE,
                     [Txt ''High confidence factual claims require evidence''],
                     [Txt ''Requires evidence because the model expressed '', Fix2 c,
                      Txt '' confidence in '', Num factual_count, Txt '' '',
                      Txt ''factual claim(s) without providing supporting sources. Evidence must be provided before proceeding.''],
                     [''evidence_requirement''], None))
      else if risk \<ge> RISK_THRESHOLD_MEDIUM
      then (if action \<in> set [''trade'', ''execute_code'']
            then (REQUIRE_HUMAN_REVIEW,
                  [Txt ''Medium-high risk ('', Fix2 risk, Txt '') for high-impact action''],
                  [Txt ''Requires human review because the risk score ('', Fix2 risk,
                   Txt '') is medium-high '',
                   Txt ''for a high-impact action ('', Txt action,
                   Txt ''). A human must approve before proceeding.''],
                  [''risk_based_review''],
                  Some [Txt ''Risk score ('', Fix2 risk,
                        Txt '') is medium-high for high-impact action ('', Txt action, Txt '')''])
            else (REQUIRE_HUMAN_REVIEW,
                  [Txt ''Medium-high risk score ('', Fix2 risk, Txt '') requires review''],
                  [Txt ''Requires human review because the risk score ('', Fix2 risk,
                   Txt '') exceeds the medium threshold. '',
                   Txt ''A human must review the output before it can proceed.''],
                  [''risk_based_review''],
                  Some [Txt ''Risk score ('', Fix2 risk, Txt '') exceeds medium threshold'']))
      else if \<not> confidence_aligned \<and> \<not> evidence_passed
      then (if risk \<ge> RISK_THRESHOLD_MEDIUM
            then (REQUIRE_HUMAN_REVIEW,
                  [Txt ''Confidence alignment issues with medium+ risk and no evidence''],
                  [Txt ''Requires human review because confidence alignment issues were detected '',
                   Txt ''(confidence '', Fix2 c,
                   Txt '' does not match claim characteristics) and the risk score '',
                   Txt ''('', Fix2 risk, Txt '') is medium or higher. Evidence is also missing.''],
                  [''confidence_alignment_check''],
                  Some [Txt ''Confidence alignment issues detected with medium+ risk and no evidence''])
            else (REQUIRE_EVIDENCE,
                  [Txt ''Confidence alignment issues detected''],
                  [Txt ''Requires evidence because confidence alignment issues were detected. '',
                   Txt ''The model's confidence ('', Fix2 c,
                   Txt '') does not align with the characteristics of the claims.''],
                  [''confidence_alignment_check''], None))
      else if high_impact_review_required
      then (REQUIRE_HUMAN_REVIEW,
            [Txt ''High-impact action requires human review''],
            [Txt ''High-impact action requires human review due to insufficient confidence or evidence. '']
              @ high_impact_review_reason,
            [''high_impact_policy''], Some high_impact_review_reason)
      else if risk < RISK_THRESHOLD_LOW
      then (ALLOW,
            [Txt ''All checks passed, low risk''],
            (if \<not> confidence_aligned \<and> evidence_passed
             then [Txt ''Allowed despite confidence misalignment because supporting evidence was provided. '',
                   Txt ''The risk score ('', Fix2 risk,
                   Txt '') is low and all critical checks passed.'']
             else [Txt ''Allowed because all checks passed and the risk score ('', Fix2 risk,
                   Txt '') is low. '',
                   Txt ''The output meets all safety and grounding requirements.'']),
            [''low_risk_allow''], None)
      else (ALLOW,
            [Txt ''All checks passed, acceptable risk ('', Fix2 risk, Txt '')''],
            (if \<not> confidence_aligned \<and> evidence_passed
             then [Txt ''Allowed despite confidence misalignment because supporting evidence was provided. '',
                   Txt ''The risk score ('', Fix2 risk, Txt '') is acceptable for the '',
                   Txt action, Txt '' action.'']
             else [Txt ''Allowed because all checks passed. The risk score ('', Fix2 risk,
                   Txt '') is acceptable '',
                   Txt ''for the '', Txt action, Txt '' action.'']),
            [''acceptable_risk_allow''], None))"

definition verdict_risk_level :: "real \<Rightarrow> string" where
  "verdict_risk_level risk =
     (if risk < RISK_THRESHOLD_LOW then ''low''
      else if risk < RISK_THRESHOLD_MEDIUM then ''medium''
      else if risk < RISK_THRESHOLD_HIGH then ''high''
      else ''critical'')"

definition pass_fail :: "bool \<Rightarrow> check_flag" where
  "pass_fail b = \<lparr>flag_passed = b, flag_result = (if b then ''PASS'' else ''FAIL'')\<rparr>"

definition build_details ::
  "Claim list \<Rightarrow> real \<Rightarrow> bool \<Rightarrow> bool \<Rightarrow> bool \<Rightarrow> CheckResult list \<Rightarrow> string list \<Rightarrow> details_info" where
  "build_details claims risk evidence_passed rules_passed confidence_aligned results srcs =
     \<lparr>d_claims = claims,
      claim_count = length claims,
      factual_claim_count = length (filter is_factual claims),
      d_risk_score = risk,
      risk_level = verdict_risk_level risk,
      checks = \<lparr>evidence_flag = pass_fail evidence_passed,
                rules_flag = pass_fail rules_passed,
                confidence_alignment_flag = pass_fail confidence_aligned\<rparr>,
      check_results = results,
      d_sources = \<lparr>src_count = length srcs, src_provided = (length srcs > 0)\<rparr>\<rparr>"


section \<open>Audit log (\<open>adf/audit/logger.py\<close>)\<close>

text \<open>
  What the program reads from outside: the configuration flag \<open>ENTERPRISE_MODE\<close> and
  the SHA-256 function of the hash library.
\<close>

record environment =
  ENTERPRISE_MODE :: bool
  sha256_hexdigest :: "string \<Rightarrow> string"

record audit_record =
  a_timestamp :: string
  ai_output_hash :: string
  ai_output_length :: nat
  a_confidence :: real
  a_intended_action :: string
  a_verdict :: string
  a_risk_score :: real
  a_failed_checks :: "string list"
  a_explanation :: message
  a_confidence_alignment :: bool
  sources_count :: nat
  a_metadata :: "(string \<times> string) list"

text \<open>
  The audit file is the list of its records; \<open>now\<close> is the reading of
  \<open>datetime.utcnow().isoformat()\<close>. Writes to the files are modelled as succeeding.
\<close>

definition log_decision ::
  "environment \<Rightarrow> string \<Rightarrow> FirewallRequest \<Rightarrow> FirewallResponse
     \<Rightarrow> (string \<times> string) list option \<Rightarrow> audit_record list \<Rightarrow> audit_record list" where
  "log_decision env now request response metadata entries =
     (if \<not> ENTERPRISE_MODE env then entries
      else entries @
        [\<lparr>a_timestamp = now @ ''Z'',
          ai_output_hash = sha256_hexdigest env (ai_output request),
          ai_output_length = length (ai_output request),
          a_confidence = confidence request,
          a_intended_action = intended_action request,
          a_verdict = verdict_value (verdict response),
          a_risk_score = risk_score response,
          a_failed_checks = failed_checks response,
          a_explanation = explanation response,
          a_confidence_alignment = confidence_alignment response,
          sources_count = (case sources request of None \<Rightarrow> 0 | Some ss \<Rightarrow> length ss),
          a_metadata = (case metadata of None \<Rightarrow> [] | Some md \<Rightarrow> md)\<rparr>])"

section \<open>Metrics (\<open>adf/metrics/counters.py\<close>)\<close>

text \<open>
  The metrics document, with the entries that \<open>_load_metrics\<close> gives a new one. The
  state modelled is the dictionary in memory, which \<open>_save_metrics\<close> stamps and
  copies to the file.
\<close>

record metrics_doc =
  total_requests :: int
  blocked_requests :: int
  allowed_requests :: int
  hallucination_blocks :: int
  human_reviews :: int
  evidence_required :: int
  by_verdict :: "string \<rightharpoonup> int"
  by_action :: "string \<rightharpoonup> int"
  last_updated :: "string option"

definition fresh_metrics :: metrics_doc where
  "fresh_metrics =
     \<lparr>total_requests = 0, blocked_requests = 0, allowed_requests = 0, hallucination_blocks = 0,
      human_reviews = 0, evidence_required = 0, by_verdict = Map.empty, by_action = Map.empty,
      last_updated = None\<rparr>"

definition save_metrics :: "string \<Rightarrow> metrics_doc \<Rightarrow> metrics_doc" where
  "save_metrics now m = m\<lparr>last_updated := Some (now @ ''Z'')\<rparr>"

text \<open>\<open>d[k] = d.get(k, 0) + 1\<close>\<close>

definition bump :: "string \<Rightarrow> (string \<rightharpoonup> int) \<Rightarrow> (string \<rightharpoonup> int)" where
  "bump k d = d(k \<mapsto> (case d k of None \<Rightarrow> 0 | Some n \<Rightarrow> n) + 1)"

definition record_request :: "Verdict \<Rightarrow> string \<Rightarrow> bool \<Rightarrow> string \<Rightarrow> metrics_doc \<Rightarrow> metrics_doc" where
  "record_request v action is_hallucination now m =
     (let m = m\<lparr>total_requests := total_requests m + 1\<rparr>;
          m = m\<lparr>by_verdict := bump (verdict_value v) (by_verdict m)\<rparr>;
          m = m\<lparr>by_action := bump action (by_action m)\<rparr>;
          m = (if v = BLOCK
               then (let m = m\<lparr>blocked_requests := blocked_requests m + 1\<rparr>
                     in if is_hallucination
                        then m\<lparr>hallucination_blocks := hallucination_blocks m + 1\<rparr>
                        else m)
               else if v = ALLOW then m\<lparr>allowed_requests := allowed_requests m + 1\<rparr>
               else if v = REQUIRE_HUMAN_REVIEW then m\<lparr>human_reviews := human_reviews m + 1\<rparr>
               else if v = REQUIRE_EVIDENCE then m\<lparr>evidence_required := evidence_required m + 1\<rparr>
               else m)
      in save_metrics now m)"

section \<open>Learning memory (\<open>adf/learning/memory.py\<close>)\<close>

record block_record =
  b_timestamp :: string
  b_ai_output :: string
  b_confidence :: real
  b_intended_action :: string
  b_verdict :: string
  b_risk_score :: real
  b_failed_checks :: "string list"
  b_explanation :: message

record override_record =
  o_timestamp :: string
  original_verdict :: string
  override_verdict :: string
  o_reason :: string
  ai_output_preview :: "string option"

text \<open>
  The memory document. Its \<open>statistics\<close> entry is a dictionary from key to counter:
  reading a key that is absent raises \<open>KeyError\<close>.
\<close>

record memory_doc =
  blocked_decisions :: "block_record list"
  human_overrides :: "override_record list"
  false_positives :: "override_record list"
  false_negatives :: "override_record list"
  statistics :: "string \<rightharpoonup> int"

datatype 'a disk_file = Missing | Unreadable | Stored 'a

record LearningMemory =
  memory :: memory_doc
  memory_file :: "memory_doc disk_file"

definition fresh_memory :: memory_doc where
  "fresh_memory =
     \<lparr>blocked_decisions = [], human_overrides = [], false_positives = [], false_negatives = [],
      statistics = [''total_blocks'' \<mapsto> 0, ''total_overrides'' \<mapsto> 0,
                    ''false_positive_count'' \<mapsto> 0, ''false_negative_count'' \<mapsto> 0]\<rparr>"

fun load_memory :: "memory_doc disk_file \<Rightarrow> memory_doc" where
  "load_memory Missing = fresh_memory"
| "load_memory Unreadable = fresh_memory"
| "load_memory (Stored d) = d"

definition LearningMemory_new :: "memory_doc disk_file \<Rightarrow> LearningMemory" where
  "LearningMemory_new f = \<lparr>memory = load_memory f, memory_file = f\<rparr>"

definition save_memory :: "LearningMemory \<Rightarrow> LearningMemory" where
  "save_memory lm = lm\<lparr>memory_file := Stored (memory lm)\<rparr>"

text \<open>\<open>d[k] += 1\<close>\<close>

definition increment :: "string \<Rightarrow> (string \<rightharpoonup> int) \<Rightarrow> py_error + (string \<rightharpoonup> int)" where
  "increment k d = (case d k of None \<Rightarrow> Inl (KeyError k) | Some n \<Rightarrow> Inr (d(k \<mapsto> n + 1)))"

definition record_blocked_decision ::
  "string \<Rightarrow> FirewallRequest \<Rightarrow> FirewallResponse \<Rightarrow> LearningMemory \<Rightarrow> py_error + LearningMemory" where
  "record_blocked_decision now request response lm =
     (if \<not> LEARNING_ENABLED then Inr lm
      else
        let entry = \<lparr>b_timestamp = now @ ''Z'',
                     b_ai_output = take 200 (ai_output request),
                     b_confidence = confidence request,
                     b_intended_action = intended_action request,
                     b_verdict = verdict_value (verdict response),
                     b_risk_score = risk_score response,
                     b_failed_checks = failed_checks response,
                     b_explanation = explanation response\<rparr>;
            d = (memory lm)\<lparr>blocked_decisions := blocked_decisions (memory lm) @ [entry]\<rparr>
        in case increment ''total_blocks'' (statistics d) of
             Inl e \<Rightarrow> Inl e
           | Inr st \<Rightarrow> Inr (save_memory (lm\<lparr>memory := d\<lparr>statistics := st\<rparr>\<rparr>)))"

definition record_human_override ::
  "string \<Rightarrow> Verdict \<Rightarrow> Verdict \<Rightarrow> string \<Rightarrow> FirewallRequest option \<Rightarrow> LearningMemory
     \<Rightarrow> py_error + LearningMemory" where
  "record_human_override now original override why request lm =
     (if \<not> LEARNING_ENABLED then Inr lm
      else
        let entry = \<lparr>o_timestamp = now @ ''Z'',
                     original_verdict = verdict_value original,
                     override_verdict = verdict_value override,
                     o_reason = why,
                     ai_output_preview =
                       (case request of None \<Rightarrow> None | Some r \<Rightarrow> Some (take 200 (ai_output r)))\<rparr>;
            d = (memory lm)\<lparr>human_overrides := human_overrides (memory lm) @ [entry]\<rparr>
        in case increment ''total_overrides'' (statistics d) of
             Inl e \<Rightarrow> Inl e
           | Inr st \<Rightarrow>
               let d = d\<lparr>statistics := st\<rparr>
               in if original = BLOCK \<and> override = ALLOW
                  then (case increment ''false_positive_count'' (statistics d) of
                          Inl e \<Rightarrow> Inl e
                        | Inr st \<Rightarrow>
                            Inr (save_memory
                                   (lm\<lparr>memory := d\<lparr>false_positives := false_positives d @ [entry],
                                                     statistics := st\<rparr>\<rparr>)))
                  else if original = ALLOW \<and> override = BLOCK
                  then (case increment ''false_negative_count'' (statistics d) of
                          Inl e \<Rightarrow> Inl e
                        | Inr st \<Rightarrow>
                            Inr (save_memory
                                   (lm\<lparr>memory := d\<lparr>false_negatives := false_negatives d @ [entry],
                                                     statistics := st\<rparr>\<rparr>)))
                  else Inr (save_memory (lm\<lparr>memory := d\<rparr>)))"

definition get_false_positive_rate :: "LearningMemory \<Rightarrow> py_error + real" where
  "get_false_positive_rate lm =
     (case statistics (memory lm) ''total_blocks'' of
        None \<Rightarrow> Inl (KeyError ''total_blocks'')
      | Some total_blocks \<Rightarrow>
          if total_blocks = 0 then Inr 0.0
          else (case statistics (memory lm) ''false_positive_count'' of
                  None \<Rightarrow> Inl (KeyError ''false_positive_count'')
                | Some fp \<Rightarrow> Inr (real_of_int fp / real_of_int total_blocks)))"

definition get_false_negative_rate :: "LearningMemory \<Rightarrow> py_error + real" where
  "get_false_negative_rate lm =
     (let total_allows = (case statistics (memory lm) ''total_allows'' of None \<Rightarrow> 0 | Some n \<Rightarrow> n)
      in if total_allows = 0 then Inr 0.0
         else (case statistics (memory lm) ''false_negative_count'' of
                 None \<Rightarrow> Inl (KeyError ''false_negative_count'')
               | Some fn \<Rightarrow>
                   Inr (if total_allows > 0 then real_of_int fn / real_of_int total_allows else 0.0)))"

text \<open>The dictionary that \<open>get_statistics\<close> returns; counters are read as numbers.\<close>

definition get_statistics :: "LearningMemory \<Rightarrow> py_error + (string \<rightharpoonup> real)" where
  "get_statistics lm =
     (case get_false_positive_rate lm of
        Inl e \<Rightarrow> Inl e
      | Inr fpr \<Rightarrow>
          (case get_false_negative_rate lm of
             Inl e \<Rightarrow> Inl e
           | Inr fnr \<Rightarrow>
               Inr ((map_option real_of_int \<circ> statistics (memory lm))
                      (''false_positive_rate'' \<mapsto> fpr,
                       ''false_negative_rate'' \<mapsto> fnr,
                       ''recent_blocks'' \<mapsto> real (min 10 (length (blocked_decisions (memory lm)))),
                       ''recent_overrides'' \<mapsto> real (min 10 (length (human_overrides (memory lm))))))))"

text \<open>
  The states of the learning memory that the program can reach: it starts from a file
  that is absent or unreadable, and each recording operation that returns leaves a new
  state, as does a restart that loads the file the program wrote.
\<close>

inductive reachable_memory :: "LearningMemory \<Rightarrow> bool" where
  start_missing: "reachable_memory (LearningMemory_new Missing)"
| start_unreadable: "reachable_memory (LearningMemory_new Unreadable)"
| blocked: "reachable_memory lm \<Longrightarrow> record_blocked_decision now request response lm = Inr lm'
            \<Longrightarrow> reachable_memory lm'"
| override: "reachable_memory lm \<Longrightarrow> record_human_override now v1 v2 why request lm = Inr lm'
            \<Longrightarrow> reachable_memory lm'"
| restart: "reachable_memory lm \<Longrightarrow> reachable_memory (LearningMemory_new (memory_file lm))"


section \<open>Interceptor (\<open>adf/firewall/interceptor.py\<close>)\<close>

text \<open>
  The state a call of \<open>check\<close> works on: the global policy manager, the audit file, the
  metrics and the learning memory.
\<close>

record firewall_state =
  policy_manager :: PolicyManager
  audit_log :: "audit_record list"
  metrics :: metrics_doc
  learning :: LearningMemory

definition get_policy_manager :: "firewall_state \<Rightarrow> PolicyManager" where
  "get_policy_manager st = policy_manager st"

definition set_policy_mode :: "PolicyMode \<Rightarrow> firewall_state \<Rightarrow> firewall_state" where
  "set_policy_mode m st = st\<lparr>policy_manager := PolicyManager_new m\<rparr>"

text \<open>The state of a fresh process with no files on disk.\<close>

definition initial_state :: firewall_state where
  "initial_state =
     \<lparr>policy_manager = PolicyManager_new GENERAL_AI, audit_log = [], metrics = fresh_metrics,
      learning = LearningMemory_new Missing\<rparr>"

text \<open>
  The three readings of the clock during one call of \<open>check\<close>.

  \<open>check\<close> is given a request that the constructor \<open>FirewallRequest_new\<close> accepted
  (\<open>valid_request\<close>): its confidence lies in [0,1], so the same constraint on the
  confidence of each \<open>Claim\<close> built by the parser and on the risk score of the response
  holds, and the constructors of these two classes do not raise. The only exception left
  is the \<open>KeyError\<close> of the learning memory.
\<close>

record clock =
  t_audit :: string
  t_metrics :: string
  t_memory :: string

definition check ::
  "environment \<Rightarrow> clock \<Rightarrow> firewall_state \<Rightarrow> FirewallRequest
     \<Rightarrow> py_error + (FirewallResponse \<times> firewall_state)" where
  "check env clk st request =
     (let claims = parse (ai_output request) (confidence request);
          (confidence_aligned, confidence_reason) =
             validate_confidence_alignment (confidence request) claims;
          confidence_check = \<lparr>check_name = ''confidence_alignment'', passed = confidence_aligned,
                              cr_reason = confidence_reason\<rparr>;
          (evidence_passed, evidence_reason, failed_evidence_claims) =
             check_evidence claims (sources request);
          evidence_check = \<lparr>check_name = ''evidence'', passed = evidence_passed,
                            cr_reason = evidence_reason\<rparr>;
          (rules_passed, rules_reason, failed_rules) =
             check_rules claims (ai_output request) (intended_action request);
          rules_check = \<lparr>check_name = ''rules'', passed = rules_passed, cr_reason = rules_reason\<rparr>;
          risk = calculate_risk_score (confidence request) (intended_action request) claims
                   evidence_passed;
          (governance_requires_review, governance_reason) =
             requires_mandatory_review (get_policy_manager st) (intended_action request);
          (requires_human_review, review_reason) =
             requires_human_review_for_high_impact (intended_action request) (confidence request)
               evidence_passed;
          failed =
             (if \<not> evidence_passed then [''evidence''] else [])
             @ (if \<not> rules_passed then [''rules''] else [])
             @ (if \<not> confidence_aligned \<and> \<not> evidence_passed then [''confidence_alignment''] else [])
             @ (if requires_human_review then [''high_impact_review_required''] else [])
             @ (if governance_requires_review then [''governance_mandatory_review''] else []);
          (v, verdict_reason, expl, policies, escalation) =
             determine_verdict risk evidence_passed rules_passed confidence_aligned failed
               (intended_action request) (confidence request) claims
               requires_human_review review_reason governance_requires_review governance_reason;
          results = [confidence_check, evidence_check, rules_check];
          det = build_details claims risk evidence_passed rules_passed confidence_aligned results
                  (case sources request of None \<Rightarrow> [] | Some ss \<Rightarrow> ss);
          response = \<lparr>verdict = v, reason = verdict_reason, risk_score = risk, details = det,
                       failed_checks = failed, explanation = expl,
                       confidence_alignment = confidence_aligned, applied_policies = policies,
                       escalation_reason = escalation\<rparr>;
          audit = (if ENTERPRISE_MODE env
                   then log_decision env (t_audit clk) request response None (audit_log st)
                   else audit_log st);
          is_hallucination = (v = BLOCK \<and> ''evidence'' \<in> set failed \<and> confidence request > 0.7);
          counters = record_request v (intended_action request) is_hallucination (t_metrics clk)
                       (metrics st);
          recorded = (if v = BLOCK
                      then record_blocked_decision (t_memory clk) request response (learning st)
                      else Inr (learning st))
      in case recorded of
           Inl e \<Rightarrow> Inl e
         | Inr lm \<Rightarrow>
             let response =
                   (if ENTERPRISE_MODE env \<and> risk \<ge> 0.7 \<and> v = ALLOW
                    then response
                           \<lparr>verdict := REQUIRE_HUMAN_REVIEW,
                            reason := [Txt ''Enterprise mode: High-risk decision requires human review''],
                            explanation :=
                              [Txt ''Enterprise mode requires human review for high-risk decisions '',
                               Txt ''(risk score: '', Fix2 risk, Txt ''). Original verdict was ALLOW.'']\<rparr>
                    else response)
             in Inr (response, st\<lparr>audit_log := audit, metrics := counters, learning := lm\<rparr>))"


section \<open>The values computed during a call of \<open>check\<close>\<close>

text \<open>
  Names for the intermediate results of \<open>check\<close>, in the order in which it computes
  them: the claims, the three checks, the risk score, the two review predicates, the
  list of failed checks, the result of the verdict engine and the response as first
  built (before the audit, metrics and learning calls and the enterprise rewrite).
\<close>

definition claims_of :: "FirewallRequest \<Rightarrow> Claim list" where
  "claims_of r = parse (ai_output r) (confidence r)"

definition aligned_of :: "FirewallRequest \<Rightarrow> bool" where
  "aligned_of r = fst (validate_confidence_alignment (confidence r) (claims_of r))"

definition evidence_of :: "FirewallRequest \<Rightarrow> bool" where
  "evidence_of r = fst (check_evidence (claims_of r) (sources r))"

definition rules_of :: "FirewallRequest \<Rightarrow> bool" where
  "rules_of r = fst (check_rules (claims_of r) (ai_output r) (intended_action r))"

definition risk_of :: "FirewallRequest \<Rightarrow> real" where
  "risk_of r = calculate_risk_score (confidence r) (intended_action r) (claims_of r) (evidence_of r)"

definition governance_of :: "firewall_state \<Rightarrow> FirewallRequest \<Rightarrow> bool" where
  "governance_of st r = fst (requires_mandatory_review (get_policy_manager st) (intended_action r))"

definition high_impact_of :: "FirewallRequest \<Rightarrow> bool" where
  "high_impact_of r =
     fst (requires_human_review_for_high_impact (intended_action r) (confidence r) (evidence_of r))"

definition failed_of :: "firewall_state \<Rightarrow> FirewallRequest \<Rightarrow> string list" where
  "failed_of st r =
     (if \<not> evidence_of r then [''evidence''] else [])
     @ (if \<not> rules_of r then [''rules''] else [])
     @ (if \<not> aligned_of r \<and> \<not> evidence_of r then [''confidence_alignment''] else [])
     @ (if high_impact_of r then [''high_impact_review_required''] else [])
     @ (if governance_of st r then [''governance_mandatory_review''] else [])"

definition decide ::
  "firewall_state \<Rightarrow> FirewallRequest
     \<Rightarrow> Verdict \<times> message \<times> message \<times> string list \<times> message option" where
  "decide st r =
     determine_verdict (risk_of r) (evidence_of r) (rules_of r) (aligned_of r) (failed_of st r)
       (intended_action r) (confidence r) (claims_of r)
       (high_impact_of r)
       (snd (requires_human_review_for_high_impact (intended_action r) (confidence r) (evidence_of r)))
       (governance_of st r)
       (snd (requires_mandatory_review (get_policy_manager st) (intended_action r)))"

definition first_response :: "firewall_state \<Rightarrow> FirewallRequest \<Rightarrow> FirewallResponse" where
  "first_response st r =
     \<lparr>verdict = fst (decide st r),
      reason = fst (snd (decide st r)),
      risk_score = risk_of r,
      details =
        build_details (claims_of r) (risk_of r) (evidence_of r) (rules_of r) (aligned_of r)
          [\<lparr>check_name = ''confidence_alignment'', passed = aligned_of r,
            cr_reason = snd (validate_confidence_alignment (confidence r) (claims_of r))\<rparr>,
           \<lparr>check_name = ''evidence'', passed = evidence_of r,
            cr_reason = fst (snd (check_evidence (claims_of r) (sources r)))\<rparr>,
           \<lparr>check_name = ''rules'', passed = rules_of r,
            cr_reason = fst (snd (check_rules (claims_of r) (ai_output r) (intended_action r)))\<rparr>]
          (case sources r of None \<Rightarrow> [] | Some ss \<Rightarrow> ss),
      failed_checks = failed_of st r,
      explanation = fst (snd (snd (decide st r))),
      confidence_alignment = aligned_of r,
      applied_policies = fst (snd (snd (snd (decide st r)))),
      escalation_reason = snd (snd (snd (snd (decide st r))))\<rparr>"


section \<open>Requests of the scenarios\<close>

text \<open>
  The request of scenario S4 (the first test of \<open>test_example.py\<close>): a factual sentence,
  confidence 0.9, action \<open>answer\<close>, no sources.
\<close>

definition s4_output :: string where
  "s4_output = ''Apple was founded in 1976 and makes the iPhone''"

definition s4_request :: FirewallRequest where
  "s4_request =
     \<lparr>ai_output = s4_output, confidence = 0.9, intended_action = ''answer'', sources = Some []\<rparr>"

text \<open>The five low bits of an ASCII letter: 1 to 26.\<close>

definition letter_bits :: "bool \<Rightarrow> bool \<Rightarrow> bool \<Rightarrow> bool \<Rightarrow> bool \<Rightarrow> bool" where
  "letter_bits b0 b1 b2 b3 b4 =
     ((b0 \<or> b1 \<or> b2 \<or> b3 \<or> b4) \<and> \<not> (b4 \<and> b3 \<and> (b2 \<or> (b1 \<and> b0))))"

text \<open>
  Scenario S2 (a trade with low confidence and no sources), the third test of
  \<open>test_example.py\<close> (the sentence of S4 with three sources) and an output that holds a
  destructive command.
\<close>

definition trade_request :: FirewallRequest where
  "trade_request =
     \<lparr>ai_output = ''Execute trade: BUY 50,000 shares of AAPL'', confidence = 0.45,
      intended_action = ''trade'', sources = Some []\<rparr>"

definition s4_sourced_request :: FirewallRequest where
  "s4_sourced_request =
     \<lparr>ai_output = s4_output, confidence = 0.9, intended_action = ''answer'',
      sources = Some [''https://www.apple.com/about/'',
                      ''https://en.wikipedia.org/wiki/Apple_Inc.'',
                      ''https://www.britannica.com/topic/Apple-Inc'']\<rparr>"

definition unsafe_request :: FirewallRequest where
  "unsafe_request =
     \<lparr>ai_output = ''rm -rf /tmp'', confidence = 0.9, intended_action = ''answer'',
      sources = Some []\<rparr>"

section \<open>The specification's formulas\<close>

text \<open>
  The risk score as the specification words it: the impact map with its default, the
  evidence factor, the claim factor and the clamp.
\<close>

definition spec_impact :: "string \<Rightarrow> real" where
  "spec_impact a =
     (if a = ''answer'' then 0.2
      else if a = ''email'' then 0.5
      else if a = ''trade'' then 0.9
      else if a = ''execute_code'' then 0.95
      else 0.5)"

definition spec_evidence_factor :: "Claim list \<Rightarrow> bool \<Rightarrow> real" where
  "spec_evidence_factor claims has_evidence =
     (if \<not> has_evidence \<and> list_ex (\<lambda>c. is_factual c \<and> c_confidence c > 0.6) claims
      then 1.5 else 1.0)"

definition clamp01 :: "real \<Rightarrow> real" where
  "clamp01 x = min 1 (max 0 x)"

definition spec_risk :: "real \<Rightarrow> string \<Rightarrow> Claim list \<Rightarrow> bool \<Rightarrow> real" where
  "spec_risk c a claims has_evidence =
     clamp01 ((1 - c) * spec_impact a * spec_evidence_factor claims has_evidence
              * min 1.3 (1 + 0.05 * real (length claims)))"

text \<open>
  The evidence check as the specification words it: \<open>F\<close> is the list of the factual
  claims with confidence above 0.6, \<open>V\<close> the sources that are not blank.
\<close>

definition spec_F :: "Claim list \<Rightarrow> Claim list" where
  "spec_F claims = filter (\<lambda>c. is_factual c \<and> c_confidence c > 0.6) claims"

definition spec_V :: "string list option \<Rightarrow> string list" where
  "spec_V srcs = filter (\<lambda>s. strip s \<noteq> []) (case srcs of None \<Rightarrow> [] | Some ss \<Rightarrow> ss)"

definition spec_evidence_passes :: "Claim list \<Rightarrow> string list option \<Rightarrow> bool" where
  "spec_evidence_passes claims srcs =
     (spec_F claims = [] \<or> length (spec_V srcs) \<ge> max 1 (length (spec_F claims) div 3))"

section \<open>The invariant of the learning memory\<close>

definition stat_keys :: "string set" where
  "stat_keys =
     {''total_blocks'', ''total_overrides'', ''false_positive_count'', ''false_negative_count''}"

text \<open>
  The statistics in memory, and those in the file when the program has written it, hold
  exactly the four counters.
\<close>

definition memory_inv :: "LearningMemory \<Rightarrow> bool" where
  "memory_inv lm =
     (dom (statistics (memory lm)) = stat_keys
      \<and> (case memory_file lm of Stored d \<Rightarrow> dom (statistics d) = stat_keys | _ \<Rightarrow> True))"


section \<open>Evaluating the text operations\<close>

text \<open>
  The character classes on a character given by its bits, so that the simplifier decides
  them on a literal in a few steps.
\<close>

lemma is_digit_Char:
  "is_digit (Char b0 b1 b2 b3 b4 b5 b6 b7) =
     (\<not> b7 \<and> \<not> b6 \<and> b5 \<and> b4 \<and> (\<not> b3 \<or> (\<not> b2 \<and> \<not> b1)))"
  by (cases b0; cases b1; cases b2; cases b3; cases b4; cases b5; cases b6; cases b7;
      simp add: is_digit_def digits_def)

lemma is_space_Char:
  "is_space (Char b0 b1 b2 b3 b4 b5 b6 b7) =
     (\<not> b7 \<and> \<not> b6 \<and>
      ((b5 \<and> \<not> b4 \<and> \<not> b3 \<and> \<not> b2 \<and> \<not> b1 \<and> \<not> b0) \<or>
       (\<not> b5 \<and> b4 \<and> b3 \<and> b2) \<or>
       (\<not> b5 \<and> \<not> b4 \<and> b3 \<and> ((\<not> b2 \<and> (b1 \<or> b0)) \<or> (b2 \<and> \<not> b1)))))"
  by (cases b0; cases b1; cases b2; cases b3; cases b4; cases b5; cases b6; cases b7;
      simp add: is_space_def whitespace_def)

lemma is_word_Char:
  "is_word (Char b0 b1 b2 b3 b4 b5 b6 b7) =
     (\<not> b7 \<and>
      ((b6 \<and> letter_bits b0 b1 b2 b3 b4) \<or>
       (b6 \<and> \<not> b5 \<and> b4 \<and> b3 \<and> b2 \<and> b1 \<and> b0) \<or>
       (\<not> b6 \<and> b5 \<and> b4 \<and> (\<not> b3 \<or> (\<not> b2 \<and> \<not> b1)))))"
  by (cases b0; cases b1; cases b2; cases b3; cases b4; cases b5; cases b6; cases b7;
      simp add: is_word_def digits_def ascii_lowercase_def ascii_uppercase_def letter_bits_def)

lemma lower_char_Char:
  "lower_char (Char b0 b1 b2 b3 b4 b5 b6 b7) =
     Char b0 b1 b2 b3 b4 (b5 \<or> (\<not> b7 \<and> b6 \<and> letter_bits b0 b1 b2 b3 b4)) b6 b7"
  by (cases b0; cases b1; cases b2; cases b3; cases b4; cases b5; cases b6; cases b7;
      simp add: lower_char_def ascii_lowercase_def ascii_uppercase_def letter_bits_def)

lemmas text_eval = is_digit_Char is_space_Char is_word_Char lower_char_Char letter_bits_def
  lower_def strip_def str_split_def

lemmas rx_eval = re_search_def re_split_def words_def Plus_def at_boundary_def same_char_def

lemma find_none: "list_all (\<lambda>p. \<not> P p) ps \<Longrightarrow> find P ps = None"
  by (induction ps) auto

text \<open>A text that is one sentence of at least three words gives one claim.\<close>

lemma parse_single_sentence:
  assumes "txt \<noteq> []" "strip txt = txt" "re_split SENTENCE_DELIMITERS txt = [txt]"
    and "\<not> length (str_split txt) < 3"
  shows "parse txt c =
    [\<lparr>claim_text = txt,
      is_factual = (re_search True factual_regex txt \<or> re_search False (Plus Dig) txt),
      c_confidence = c\<rparr>]"
  using assms by (auto simp add: parse_def claim_of_sentence_def Let_def)

section \<open>The verdict ladder\<close>

text \<open>The verdict and the policy tag that \<open>determine_verdict\<close> returns, rule by rule.\<close>

lemma dv_verdict:
  "fst (determine_verdict risk ev rp ca f a c cl hi hir gov gr) =
     (if gov then REQUIRE_HUMAN_REVIEW
      else if \<not> rp then BLOCK
      else if risk \<ge> 0.8 \<and> (a = ''trade'' \<or> a = ''execute_code'') then BLOCK
      else if \<not> ev then (if risk \<ge> 0.6 then BLOCK else REQUIRE_EVIDENCE)
      else if risk \<ge> 0.6 then REQUIRE_HUMAN_REVIEW
      else if hi then REQUIRE_HUMAN_REVIEW
      else ALLOW)"
  by (simp add: determine_verdict_def Let_def RISK_THRESHOLD_MEDIUM_def RISK_THRESHOLD_HIGH_def
      RISK_THRESHOLD_LOW_def)

lemma dv_policies:
  "fst (snd (snd (snd (determine_verdict risk ev rp ca f a c cl hi hir gov gr)))) =
     (if gov then [''mandatory_governance_review'']
      else if \<not> rp then [''safety_rules'']
      else if risk \<ge> 0.8 \<and> (a = ''trade'' \<or> a = ''execute_code'') then [''high_risk_block'']
      else if \<not> ev then [''evidence_requirement'']
      else if risk \<ge> 0.6 then [''risk_based_review'']
      else if hi then [''high_impact_policy'']
      else if risk < 0.3 then [''low_risk_allow'']
      else [''acceptable_risk_allow''])"
  by (simp add: determine_verdict_def Let_def RISK_THRESHOLD_MEDIUM_def RISK_THRESHOLD_HIGH_def
      RISK_THRESHOLD_LOW_def)

lemma dv_allow_risk:
  "fst (determine_verdict risk ev rp ca f a c cl hi hir gov gr) = ALLOW \<Longrightarrow> risk < 0.6"
  by (simp add: dv_verdict split: if_splits)

lemma decide_verdict:
  "fst (decide st r) =
     (if governance_of st r then REQUIRE_HUMAN_REVIEW
      else if \<not> rules_of r then BLOCK
      else if risk_of r \<ge> 0.8 \<and> (intended_action r = ''trade'' \<or> intended_action r = ''execute_code'')
      then BLOCK
      else if \<not> evidence_of r then (if risk_of r \<ge> 0.6 then BLOCK else REQUIRE_EVIDENCE)
      else if risk_of r \<ge> 0.6 then REQUIRE_HUMAN_REVIEW
      else if high_impact_of r then REQUIRE_HUMAN_REVIEW
      else ALLOW)"
  unfolding decide_def by (rule dv_verdict)

lemma decide_policies:
  "fst (snd (snd (snd (decide st r)))) =
     (if governance_of st r then [''mandatory_governance_review'']
      else if \<not> rules_of r then [''safety_rules'']
      else if risk_of r \<ge> 0.8 \<and> (intended_action r = ''trade'' \<or> intended_action r = ''execute_code'')
      then [''high_risk_block'']
      else if \<not> evidence_of r then [''evidence_requirement'']
      else if risk_of r \<ge> 0.6 then [''risk_based_review'']
      else if high_impact_of r then [''high_impact_policy'']
      else if risk_of r < 0.3 then [''low_risk_allow'']
      else [''acceptable_risk_allow''])"
  unfolding decide_def by (rule dv_policies)

lemma first_response_simps:
  "verdict (first_response st r) = fst (decide st r)"
  "risk_score (first_response st r) = risk_of r"
  "failed_checks (first_response st r) = failed_of st r"
  "applied_policies (first_response st r) = fst (snd (snd (snd (decide st r))))"
  "confidence_alignment (first_response st r) = aligned_of r"
  by (simp_all add: first_response_def)

section \<open>The shape of \<open>check\<close>\<close>

text \<open>\<open>check\<close> written with the names of its intermediate results.\<close>

lemma check_unfold:
  "check env clk st r =
     (case (if fst (decide st r) = BLOCK
            then record_blocked_decision (t_memory clk) r (first_response st r) (learning st)
            else Inr (learning st)) of
        Inl e \<Rightarrow> Inl e
      | Inr lm \<Rightarrow>
          Inr ((if ENTERPRISE_MODE env \<and> risk_of r \<ge> 0.7 \<and> fst (decide st r) = ALLOW
                then (first_response st r)
                       \<lparr>verdict := REQUIRE_HUMAN_REVIEW,
                        reason := [Txt ''Enterprise mode: High-risk decision requires human review''],
                        explanation :=
                          [Txt ''Enterprise mode requires human review for high-risk decisions '',
                           Txt ''(risk score: '', Fix2 (risk_of r),
                           Txt ''). Original verdict was ALLOW.'']\<rparr>
                else first_response st r),
               st\<lparr>audit_log :=
                    (if ENTERPRISE_MODE env
                     then log_decision env (t_audit clk) r (first_response st r) None (audit_log st)
                     else audit_log st),
                  metrics :=
                    record_request (fst (decide st r)) (intended_action r)
                      (fst (decide st r) = BLOCK \<and> ''evidence'' \<in> set (failed_of st r)
                       \<and> confidence r > 0.7)
                      (t_metrics clk) (metrics st),
                  learning := lm\<rparr>))"
  unfolding check_def first_response_def decide_def failed_of_def high_impact_of_def
    governance_of_def risk_of_def rules_of_def evidence_of_def aligned_of_def claims_of_def
    Let_def split_beta
  by (rule refl)

text \<open>The condition of the enterprise rewrite is never met.\<close>

lemma overlay_never: "\<not> (risk_of r \<ge> 0.7 \<and> fst (decide st r) = ALLOW)"
  using dv_allow_risk[of "risk_of r"] unfolding decide_def by fastforce

lemma check_no_overlay:
  "check env clk st r =
     (case (if fst (decide st r) = BLOCK
            then record_blocked_decision (t_memory clk) r (first_response st r) (learning st)
            else Inr (learning st)) of
        Inl e \<Rightarrow> Inl e
      | Inr lm \<Rightarrow>
          Inr (first_response st r,
               st\<lparr>audit_log :=
                    (if ENTERPRISE_MODE env
                     then log_decision env (t_audit clk) r (first_response st r) None (audit_log st)
                     else audit_log st),
                  metrics :=
                    record_request (fst (decide st r)) (intended_action r)
                      (fst (decide st r) = BLOCK \<and> ''evidence'' \<in> set (failed_of st r)
                       \<and> confidence r > 0.7)
                      (t_metrics clk) (metrics st),
                  learning := lm\<rparr>))"
  using overlay_never[of r st] by (simp only: check_unfold if_False simp_thms)

section \<open>Scenario S4\<close>

lemma s4_strip: "strip s4_output = s4_output"
  by (simp add: s4_output_def text_eval)

lemma s4_split: "re_split SENTENCE_DELIMITERS s4_output = [s4_output]"
  by (simp add: s4_output_def SENTENCE_DELIMITERS_def text_eval rx_eval)

lemma s4_words: "length (str_split s4_output) = 9"
  by (simp add: s4_output_def text_eval)

lemma s4_factual: "re_search True factual_regex s4_output"
  by (simp add: s4_output_def factual_regex_def FACTUAL_PATTERNS_def text_eval rx_eval)

lemma s4_parse:
  "parse s4_output c = [\<lparr>claim_text = s4_output, is_factual = True, c_confidence = c\<rparr>]"
  using parse_single_sentence[of s4_output c] s4_strip s4_split s4_words s4_factual
  by (simp add: s4_output_def)

lemma s4_unsafe: "list_all (\<lambda>p. \<not> re_search True p s4_output) unsafe_patterns"
  unfolding unsafe_patterns_def
  by (intro list.pred_inject(2)[THEN iffD2] list.pred_inject(1) conjI;
      simp add: s4_output_def text_eval rx_eval)

lemma s4_rules:
  "check_rules [\<lparr>claim_text = s4_output, is_factual = True, c_confidence = c\<rparr>] s4_output ''answer''
     = (True, [Txt ''All rules passed''], [])"
  using find_none[OF s4_unsafe]
  by (simp add: check_rules_def check_unsafe_patterns_def check_contradictions_def)

lemma s4_claims:
  "claims_of s4_request = [\<lparr>claim_text = s4_output, is_factual = True, c_confidence = 0.9\<rparr>]"
  by (simp add: claims_of_def s4_request_def s4_parse)

lemma s4_aligned: "\<not> aligned_of s4_request"
  by (simp add: aligned_of_def s4_claims validate_confidence_alignment_def
      CONFIDENCE_THRESHOLD_EVIDENCE_REQUIRED_def) (simp add: s4_request_def)

lemma s4_evidence: "\<not> evidence_of s4_request"
  by (simp add: evidence_of_def s4_claims check_evidence_def
      CONFIDENCE_THRESHOLD_EVIDENCE_REQUIRED_def) (simp add: s4_request_def)

lemma s4_rules_of: "rules_of s4_request"
  by (simp add: rules_of_def s4_claims) (simp add: s4_request_def s4_rules)

lemma s4_risk: "risk_of s4_request = 63 / 2000"
  by (simp add: risk_of_def s4_claims s4_evidence calculate_risk_score_def calculate_uncertainty_def)
     (simp add: s4_request_def ACTION_IMPACT_def text_eval)

lemma s4_governance: "\<not> governance_of (set_policy_mode GENERAL_AI st) s4_request"
  by (simp add: governance_of_def set_policy_mode_def get_policy_manager_def
      requires_mandatory_review_def s4_request_def text_eval)

lemma s4_high_impact: "\<not> high_impact_of s4_request"
  by (simp add: high_impact_of_def requires_human_review_for_high_impact_def s4_request_def
      HIGH_IMPACT_ACTIONS_def text_eval)

lemma s4_valid: "valid_request s4_request"
  by (simp add: valid_request_def FirewallRequest_new_def validate_action_def valid_actions_def
      s4_request_def text_eval)

text \<open>
  C5. On the request of scenario S4, in any state whose policy mode is \<open>GENERAL_AI\<close>,
  \<open>check\<close> returns the verdict \<open>REQUIRE_EVIDENCE\<close> (not \<open>BLOCK\<close>) with \<open>evidence\<close> among
  the failed checks; the risk score is 0.0315, below the 0.6 that the evidence rule
  needs to block.
\<close>

theorem s4_requires_evidence:
  "\<exists>resp st'. check env clk (set_policy_mode GENERAL_AI st) s4_request = Inr (resp, st')
      \<and> verdict resp = REQUIRE_EVIDENCE
      \<and> verdict resp \<noteq> BLOCK
      \<and> ''evidence'' \<in> set (failed_checks resp)
      \<and> risk_score resp = 63 / 2000"
  by (simp add: check_no_overlay first_response_simps decide_verdict failed_of_def
      s4_governance s4_rules_of s4_risk s4_evidence s4_high_impact s4_aligned)

section \<open>Requests and what \<open>check\<close> returns\<close>

lemma lower_valid_action: "a \<in> set valid_actions \<Longrightarrow> lower a = a"
  by (auto simp: valid_actions_def text_eval)

text \<open>The constructor accepts exactly a confidence in [0,1] with one of the four actions.\<close>

lemma valid_request_iff:
  "valid_request r \<longleftrightarrow>
     0 \<le> confidence r \<and> confidence r \<le> 1 \<and> intended_action r \<in> set valid_actions"
proof
  assume v: "valid_request r"
  then have c: "0 \<le> confidence r \<and> confidence r \<le> 1"
    by (auto simp: valid_request_def FirewallRequest_new_def split: if_splits)
  from v have l: "lower (intended_action r) \<in> set valid_actions"
    by (auto simp: valid_request_def FirewallRequest_new_def validate_action_def
        split: if_splits)
  from v c l have "intended_action r = lower (intended_action r)"
    by (cases r) (simp add: valid_request_def FirewallRequest_new_def validate_action_def)
  with c l show "0 \<le> confidence r \<and> confidence r \<le> 1 \<and> intended_action r \<in> set valid_actions"
    by simp
next
  assume "0 \<le> confidence r \<and> confidence r \<le> 1 \<and> intended_action r \<in> set valid_actions"
  then show "valid_request r"
    by (simp add: valid_request_def FirewallRequest_new_def validate_action_def
        lower_valid_action)
qed

lemma check_response:
  "check env clk st r = Inr (resp, st') \<Longrightarrow> resp = first_response st r"
  by (auto simp: check_no_overlay split: sum.splits)

lemma check_state:
  assumes "check env clk st r = Inr (resp, st')"
  shows "audit_log st' =
           (if ENTERPRISE_MODE env
            then log_decision env (t_audit clk) r (first_response st r) None (audit_log st)
            else audit_log st)"
    and "metrics st' =
           record_request (fst (decide st r)) (intended_action r)
             (fst (decide st r) = BLOCK \<and> ''evidence'' \<in> set (failed_of st r)
              \<and> confidence r > 0.7)
             (t_metrics clk) (metrics st)"
    and "fst (decide st r) = BLOCK \<Longrightarrow>
           record_blocked_decision (t_memory clk) r (first_response st r) (learning st)
             = Inr (learning st')"
    and "fst (decide st r) \<noteq> BLOCK \<Longrightarrow> learning st' = learning st"
  using assms by (auto simp: check_no_overlay split: sum.splits if_splits)

lemma check_returns_unblocked:
  "fst (decide st r) \<noteq> BLOCK \<Longrightarrow> \<exists>st'. check env clk st r = Inr (first_response st r, st')"
  by (simp add: check_no_overlay)

lemma blocked_returns:
  "statistics (memory lm) ''total_blocks'' \<noteq> None \<Longrightarrow>
     \<exists>lm'. record_blocked_decision now rq rs lm = Inr lm'"
  by (auto simp: record_blocked_decision_def Let_def increment_def LEARNING_ENABLED_def)

lemma check_returns_blocked:
  assumes "statistics (memory (learning st)) ''total_blocks'' \<noteq> None"
  shows "\<exists>st'. check env clk st r = Inr (first_response st r, st')"
proof (cases "fst (decide st r) = BLOCK")
  case True
  from blocked_returns[OF assms] obtain lm' where
    "record_blocked_decision (t_memory clk) r (first_response st r) (learning st) = Inr lm'"
    by blast
  with True show ?thesis by (simp add: check_no_overlay)
next
  case False
  then show ?thesis by (rule check_returns_unblocked)
qed

lemma blocked_entry:
  "record_blocked_decision now rq rs lm = Inr lm' \<Longrightarrow>
     \<exists>b. blocked_decisions (memory lm') = blocked_decisions (memory lm) @ [b]
         \<and> b_verdict b = verdict_value (verdict rs)"
  by (auto simp: record_blocked_decision_def Let_def LEARNING_ENABLED_def save_memory_def
      split: sum.splits)

section \<open>The example requests\<close>

lemma trade_valid: "valid_request trade_request"
  by (simp add: valid_request_iff trade_request_def valid_actions_def)

lemma trade_governance: "governance_of initial_state trade_request"
  by (simp add: governance_of_def get_policy_manager_def initial_state_def
      requires_mandatory_review_def trade_request_def text_eval)

lemma trade_check:
  "\<exists>st'. check env clk initial_state trade_request
           = Inr (first_response initial_state trade_request, st')"
  using trade_governance by (intro check_returns_unblocked) (simp add: decide_verdict)

lemma initial_policy: "policy_manager initial_state = PolicyManager_new GENERAL_AI"
  by (simp add: initial_state_def)

lemma initial_total_blocks:
  "statistics (memory (learning initial_state)) ''total_blocks'' \<noteq> None"
  by (simp add: initial_state_def LearningMemory_new_def fresh_memory_def)

lemma find_some: "p \<in> set ps \<Longrightarrow> P p \<Longrightarrow> find P ps \<noteq> None"
  by (auto simp: find_None_iff)

lemma unsafe_fails_rules:
  assumes "p \<in> set unsafe_patterns" "re_search True p out"
  shows "\<not> fst (check_rules cl out a)"
proof -
  from find_some[of p unsafe_patterns "\<lambda>p. re_search True p out", OF assms]
  have "\<not> fst (check_unsafe_patterns out)"
    by (auto simp: check_unsafe_patterns_def split: option.splits)
  then show ?thesis by (simp add: check_rules_def Let_def)
qed

lemma unsafe_match: "re_search True (hd unsafe_patterns) ''rm -rf /tmp''"
  by (simp add: unsafe_patterns_def text_eval rx_eval)

lemma unsafe_rules: "\<not> rules_of unsafe_request"
  unfolding rules_of_def
  by (rule unsafe_fails_rules[of "hd unsafe_patterns"])
     (simp_all add: unsafe_request_def unsafe_match, simp add: unsafe_patterns_def)

lemma unsafe_valid: "valid_request unsafe_request"
  by (simp add: valid_request_iff unsafe_request_def valid_actions_def)

lemma unsafe_governance: "\<not> governance_of initial_state unsafe_request"
  by (simp add: governance_of_def get_policy_manager_def initial_state_def
      requires_mandatory_review_def unsafe_request_def text_eval)

lemma sourced_claims:
  "claims_of s4_sourced_request
     = [\<lparr>claim_text = s4_output, is_factual = True, c_confidence = 0.9\<rparr>]"
  by (simp add: claims_of_def s4_sourced_request_def s4_parse)

lemma sourced_aligned: "\<not> aligned_of s4_sourced_request"
  by (simp add: aligned_of_def sourced_claims validate_confidence_alignment_def
      CONFIDENCE_THRESHOLD_EVIDENCE_REQUIRED_def) (simp add: s4_sourced_request_def)

lemma sourced_evidence: "evidence_of s4_sourced_request"
  by (simp add: evidence_of_def sourced_claims check_evidence_def
      CONFIDENCE_THRESHOLD_EVIDENCE_REQUIRED_def) (simp add: s4_sourced_request_def text_eval)

lemma sourced_rules: "rules_of s4_sourced_request"
  by (simp add: rules_of_def sourced_claims) (simp add: s4_sourced_request_def s4_rules)

lemma sourced_risk: "risk_of s4_sourced_request = 21 / 1000"
  by (simp add: risk_of_def sourced_claims sourced_evidence calculate_risk_score_def
      calculate_uncertainty_def)
     (simp add: s4_sourced_request_def ACTION_IMPACT_def text_eval)

lemma sourced_governance: "\<not> governance_of initial_state s4_sourced_request"
  by (simp add: governance_of_def get_policy_manager_def initial_state_def
      requires_mandatory_review_def s4_sourced_request_def text_eval)

lemma sourced_valid: "valid_request s4_sourced_request"
  by (simp add: valid_request_iff s4_sourced_request_def valid_actions_def)

lemma sourced_action: "intended_action s4_sourced_request = ''answer''"
  by (simp add: s4_sourced_request_def)

lemma sourced_allow: "fst (decide initial_state s4_sourced_request) = ALLOW"
  by (simp add: decide_verdict sourced_governance sourced_rules sourced_risk sourced_evidence
      high_impact_of_def requires_human_review_for_high_impact_def HIGH_IMPACT_ACTIONS_def
      sourced_action text_eval)

section \<open>Governance and safety\<close>

text \<open>
  C1. Governance supremacy: for every valid request, in every state, if
  \<open>requires_mandatory_review\<close> of the current policy manager is true for the request's
  action (\<open>governance_of\<close>), then \<open>check\<close> returns, its verdict is
  \<open>REQUIRE_HUMAN_REVIEW\<close> and \<open>mandatory_governance_review\<close> is among the applied
  policies, whatever the confidence, the evidence, the risk score and the rule scan are.
\<close>

theorem governance_supremacy:
  assumes "valid_request r" and "governance_of st r"
  shows "\<exists>resp st'. check env clk st r = Inr (resp, st')
           \<and> verdict resp = REQUIRE_HUMAN_REVIEW
           \<and> ''mandatory_governance_review'' \<in> set (applied_policies resp)"
proof -
  from assms(2) have v: "fst (decide st r) = REQUIRE_HUMAN_REVIEW"
    and p: "fst (snd (snd (snd (decide st r)))) = [''mandatory_governance_review'']"
    by (simp_all add: decide_verdict decide_policies)
  from v have "fst (decide st r) \<noteq> BLOCK" by simp
  from check_returns_unblocked[OF this] obtain st' where
    "check env clk st r = Inr (first_response st r, st')" by blast
  with v p show ?thesis by (auto simp: first_response_simps)
qed

text \<open>Witness of C1: the trade request of scenario S2 in the initial state.\<close>

theorem governance_supremacy_witness:
  "\<forall>env clk. valid_request trade_request \<and> governance_of initial_state trade_request
     \<and> (\<exists>resp st'. check env clk initial_state trade_request = Inr (resp, st')
           \<and> verdict resp = REQUIRE_HUMAN_REVIEW
           \<and> ''mandatory_governance_review'' \<in> set (applied_policies resp))"
  using governance_supremacy[OF trade_valid trade_governance] trade_valid trade_governance
  by blast

text \<open>
  C2. Safety supremacy below governance: for every valid request whose rule scan fails
  (\<open>rules_of\<close> is false) and to which mandatory review does not apply, \<open>check\<close> returns the
  verdict \<open>BLOCK\<close> with \<open>safety_rules\<close> among the applied policies, whatever the risk, the
  evidence, the confidence and the enterprise flag are. The learning memory must hold its
  \<open>total_blocks\<close> counter, as every memory that the program builds or writes does;
  recording the block reads it.
\<close>

theorem safety_supremacy:
  assumes "valid_request r" and "\<not> rules_of r" and "\<not> governance_of st r"
    and "statistics (memory (learning st)) ''total_blocks'' \<noteq> None"
  shows "\<exists>resp st'. check env clk st r = Inr (resp, st')
           \<and> verdict resp = BLOCK
           \<and> ''safety_rules'' \<in> set (applied_policies resp)"
proof -
  from assms(2,3) have v: "fst (decide st r) = BLOCK"
    and p: "fst (snd (snd (snd (decide st r)))) = [''safety_rules'']"
    by (simp_all add: decide_verdict decide_policies)
  from check_returns_blocked[OF assms(4)] obtain st' where
    "check env clk st r = Inr (first_response st r, st')" by blast
  with v p show ?thesis by (auto simp: first_response_simps)
qed

text \<open>Witness of C2: an answer that holds \<open>rm -rf\<close>, in the initial state.\<close>

theorem safety_supremacy_witness:
  "\<forall>env clk. valid_request unsafe_request \<and> \<not> rules_of unsafe_request
     \<and> \<not> governance_of initial_state unsafe_request
     \<and> statistics (memory (learning initial_state)) ''total_blocks'' \<noteq> None
     \<and> (\<exists>resp st'. check env clk initial_state unsafe_request = Inr (resp, st')
           \<and> verdict resp = BLOCK
           \<and> ''safety_rules'' \<in> set (applied_policies resp))"
  using safety_supremacy[OF unsafe_valid unsafe_rules unsafe_governance initial_total_blocks]
    unsafe_valid unsafe_rules unsafe_governance initial_total_blocks
  by blast

section \<open>The evidence override rule\<close>

text \<open>
  C3. For every valid request whose confidence-alignment check fails and whose evidence
  check passes, when no rule of higher priority fires (no governance review, the rules
  pass, no critical risk on a high-impact action, the evidence gate is passed, the risk
  is below 0.6), \<open>check\<close> returns a verdict other than \<open>BLOCK\<close> and
  \<open>confidence_alignment\<close> is not among the failed checks.
\<close>

theorem evidence_override:
  assumes "valid_request r" and "\<not> aligned_of r" and "evidence_of r"
    and "\<not> governance_of st r" and "rules_of r"
    and "\<not> (risk_of r \<ge> 0.8 \<and> intended_action r \<in> {''trade'', ''execute_code''})"
    and "\<not> risk_of r \<ge> 0.6"
  shows "\<exists>resp st'. check env clk st r = Inr (resp, st')
           \<and> verdict resp \<noteq> BLOCK
           \<and> ''confidence_alignment'' \<notin> set (failed_checks resp)"
proof -
  from assms(3-7) have v: "fst (decide st r) \<noteq> BLOCK"
    by (simp add: decide_verdict)
  from assms(3) have f: "''confidence_alignment'' \<notin> set (failed_of st r)"
    by (simp add: failed_of_def)
  from check_returns_unblocked[OF v] obtain st' where
    "check env clk st r = Inr (first_response st r, st')" by blast
  with v f show ?thesis by (auto simp: first_response_simps)
qed

text \<open>
  Witness of C3: the sentence of S4 with three sources; the alignment check fails, the
  evidence check passes, the risk is 0.021.
\<close>

theorem evidence_override_witness:
  "\<forall>env clk. valid_request s4_sourced_request \<and> \<not> aligned_of s4_sourced_request
     \<and> evidence_of s4_sourced_request \<and> \<not> governance_of initial_state s4_sourced_request
     \<and> rules_of s4_sourced_request \<and> risk_of s4_sourced_request = 21 / 1000
     \<and> (\<exists>resp st'. check env clk initial_state s4_sourced_request = Inr (resp, st')
           \<and> verdict resp \<noteq> BLOCK
           \<and> ''confidence_alignment'' \<notin> set (failed_checks resp))"
proof -
  have "\<not> (risk_of s4_sourced_request \<ge> 0.8
            \<and> intended_action s4_sourced_request \<in> {''trade'', ''execute_code''})"
    and "\<not> risk_of s4_sourced_request \<ge> 0.6"
    by (simp_all add: sourced_risk)
  from evidence_override[OF sourced_valid sourced_aligned sourced_evidence sourced_governance
      sourced_rules this]
  show ?thesis
    using sourced_valid sourced_aligned sourced_evidence sourced_governance sourced_rules
      sourced_risk by blast
qed


section \<open>Side effects and the enterprise rewrite\<close>

text \<open>
  C4. Logical atomicity of the side effects: for every valid request for which \<open>check\<close>
  returns a response \<open>resp\<close> and a new state, the audit entry written (in enterprise
  mode) carries the verdict of \<open>resp\<close>, the metrics are those obtained by recording the
  verdict of \<open>resp\<close>, and the learning memory holds a new block record, with the verdict
  of \<open>resp\<close>, exactly when that verdict is \<open>BLOCK\<close>. So no side effect holds a verdict
  that the enterprise rewrite changed afterwards.
\<close>

theorem side_effects_record_returned_verdict:
  assumes "valid_request r" and "check env clk st r = Inr (resp, st')"
  shows "audit_log st' =
           (if ENTERPRISE_MODE env
            then audit_log st @
                   [\<lparr>a_timestamp = t_audit clk @ ''Z'',
                     ai_output_hash = sha256_hexdigest env (ai_output r),
                     ai_output_length = length (ai_output r),
                     a_confidence = confidence r,
                     a_intended_action = intended_action r,
                     a_verdict = verdict_value (verdict resp),
                     a_risk_score = risk_score resp,
                     a_failed_checks = failed_checks resp,
                     a_explanation = explanation resp,
                     a_confidence_alignment = confidence_alignment resp,
                     sources_count = (case sources r of None \<Rightarrow> 0 | Some ss \<Rightarrow> length ss),
                     a_metadata = []\<rparr>]
            else audit_log st)
       \<and> metrics st' =
           record_request (verdict resp) (intended_action r)
             (verdict resp = BLOCK \<and> ''evidence'' \<in> set (failed_checks resp) \<and> confidence r > 0.7)
             (t_metrics clk) (metrics st)
       \<and> by_verdict (metrics st') = bump (verdict_value (verdict resp)) (by_verdict (metrics st))
       \<and> (if verdict resp = BLOCK
           then record_blocked_decision (t_memory clk) r resp (learning st) = Inr (learning st')
                \<and> (\<exists>b. blocked_decisions (memory (learning st'))
                           = blocked_decisions (memory (learning st)) @ [b]
                        \<and> b_verdict b = verdict_value (verdict resp))
           else learning st' = learning st)"
proof -
  note resp = check_response[OF assms(2)]
  note st = check_state[OF assms(2)]
  have v: "verdict resp = fst (decide st r)" by (simp add: resp first_response_simps)
  have a: "audit_log st' =
           (if ENTERPRISE_MODE env
            then audit_log st @
                   [\<lparr>a_timestamp = t_audit clk @ ''Z'',
                     ai_output_hash = sha256_hexdigest env (ai_output r),
                     ai_output_length = length (ai_output r),
                     a_confidence = confidence r,
                     a_intended_action = intended_action r,
                     a_verdict = verdict_value (verdict resp),
                     a_risk_score = risk_score resp,
                     a_failed_checks = failed_checks resp,
                     a_explanation = explanation resp,
                     a_confidence_alignment = confidence_alignment resp,
                     sources_count = (case sources r of None \<Rightarrow> 0 | Some ss \<Rightarrow> length ss),
                     a_metadata = []\<rparr>]
            else audit_log st)"
    using st(1) by (simp add: resp log_decision_def)
  have m: "metrics st' =
           record_request (verdict resp) (intended_action r)
             (verdict resp = BLOCK \<and> ''evidence'' \<in> set (failed_checks resp) \<and> confidence r > 0.7)
             (t_metrics clk) (metrics st)"
    using st(2) by (simp add: resp first_response_simps)
  have bv: "by_verdict (metrics st') = bump (verdict_value (verdict resp)) (by_verdict (metrics st))"
    unfolding m by (simp add: record_request_def save_metrics_def Let_def)
  have l: "if verdict resp = BLOCK
           then record_blocked_decision (t_memory clk) r resp (learning st) = Inr (learning st')
                \<and> (\<exists>b. blocked_decisions (memory (learning st'))
                           = blocked_decisions (memory (learning st)) @ [b]
                        \<and> b_verdict b = verdict_value (verdict resp))
           else learning st' = learning st"
  proof (cases "verdict resp = BLOCK")
    case True
    with st(3) v
    have rb: "record_blocked_decision (t_memory clk) r resp (learning st) = Inr (learning st')"
      by (simp add: resp)
    then have "\<exists>b. blocked_decisions (memory (learning st'))
                           = blocked_decisions (memory (learning st)) @ [b]
                        \<and> b_verdict b = verdict_value (verdict resp)"
      by (rule blocked_entry)
    with True rb show ?thesis by simp
  next
    case False
    with st(4) v show ?thesis by simp
  qed
  from a m bv l show ?thesis by blast
qed

text \<open>
  Witness of C4: the trade request in the initial state; the metrics count one
  \<open>REQUIRE_HUMAN_REVIEW\<close> and the learning memory is unchanged.
\<close>

theorem side_effects_record_returned_verdict_witness:
  "\<forall>env clk. valid_request trade_request
     \<and> (\<exists>resp st'. check env clk initial_state trade_request = Inr (resp, st')
          \<and> by_verdict (metrics st') (verdict_value (verdict resp)) = Some 1
          \<and> learning st' = learning initial_state)"
proof (intro allI conjI)
  fix env clk
  show "valid_request trade_request" by (rule trade_valid)
  from trade_check obtain st' where
    c: "check env clk initial_state trade_request
          = Inr (first_response initial_state trade_request, st')" by blast
  have v: "verdict (first_response initial_state trade_request) = REQUIRE_HUMAN_REVIEW"
    using trade_governance by (simp add: first_response_simps decide_verdict)
  from side_effects_record_returned_verdict[OF trade_valid c]
  have "by_verdict (metrics st') =
          bump (verdict_value (verdict (first_response initial_state trade_request)))
            (by_verdict (metrics initial_state))"
    and "if verdict (first_response initial_state trade_request) = BLOCK
         then record_blocked_decision (t_memory clk) trade_request
                (first_response initial_state trade_request) (learning initial_state)
                = Inr (learning st')
              \<and> (\<exists>b. blocked_decisions (memory (learning st'))
                         = blocked_decisions (memory (learning initial_state)) @ [b]
                      \<and> b_verdict b
                          = verdict_value (verdict (first_response initial_state trade_request)))
         else learning st' = learning initial_state"
    by blast+
  then have bv: "by_verdict (metrics st')
                   = bump ''REQUIRE_HUMAN_REVIEW'' (by_verdict (metrics initial_state))"
    and l: "learning st' = learning initial_state"
    by (simp_all add: v)
  have "by_verdict (metrics initial_state) = Map.empty"
    by (simp add: initial_state_def fresh_metrics_def)
  with bv have "by_verdict (metrics st') ''REQUIRE_HUMAN_REVIEW'' = Some 1"
    by (simp add: bump_def)
  then have "by_verdict (metrics st')
               (verdict_value (verdict (first_response initial_state trade_request))) = Some 1"
    by (simp add: v)
  with c l show "\<exists>resp st'. check env clk initial_state trade_request = Inr (resp, st')
          \<and> by_verdict (metrics st') (verdict_value (verdict resp)) = Some 1
          \<and> learning st' = learning initial_state" by blast
qed

text \<open>
  C9. If \<open>determine_verdict\<close> returns \<open>ALLOW\<close> then the risk score is below 0.6, since
  the risk-based review returns first from 0.6 on. So for every valid request the
  condition of the enterprise rewrite (verdict \<open>ALLOW\<close> and risk at least 0.7) is false,
  and the response that \<open>check\<close> returns is the response as first built, with the verdict
  of \<open>determine_verdict\<close>.
\<close>

theorem overlay_never_fires:
  "(fst (determine_verdict risk ev rp ca f a c cl hi hir gov gr) = ALLOW \<longrightarrow> risk < 0.6)
   \<and> (valid_request r \<longrightarrow> \<not> (fst (decide st r) = ALLOW \<and> risk_of r \<ge> 0.7))
   \<and> (valid_request r \<longrightarrow> check env clk st r = Inr (resp, st') \<longrightarrow>
        resp = first_response st r \<and> verdict resp = fst (decide st r))"
  using dv_allow_risk[of risk ev rp ca f a c cl hi hir gov gr] overlay_never[of r st]
    check_response[of env clk st r resp st']
  by (auto simp: first_response_simps)

text \<open>
  Witness of C9: the sentence of S4 with three sources is allowed, with risk 0.021, and
  the response returned is the one first built, in enterprise mode or not.
\<close>

theorem overlay_never_fires_witness:
  "\<forall>env clk. valid_request s4_sourced_request
     \<and> fst (decide initial_state s4_sourced_request) = ALLOW
     \<and> risk_of s4_sourced_request < 0.6
     \<and> (\<exists>st'. check env clk initial_state s4_sourced_request
                 = Inr (first_response initial_state s4_sourced_request, st')
              \<and> verdict (first_response initial_state s4_sourced_request) = ALLOW)"
proof (intro allI)
  fix env clk
  have "fst (decide initial_state s4_sourced_request) \<noteq> BLOCK" by (simp add: sourced_allow)
  from check_returns_unblocked[OF this] obtain st' where
    c: "check env clk initial_state s4_sourced_request
          = Inr (first_response initial_state s4_sourced_request, st')" by blast
  have d: "fst (decide initial_state s4_sourced_request) =
    fst (determine_verdict (risk_of s4_sourced_request) (evidence_of s4_sourced_request)
       (rules_of s4_sourced_request) (aligned_of s4_sourced_request)
       (failed_of initial_state s4_sourced_request)
       (intended_action s4_sourced_request) (confidence s4_sourced_request)
       (claims_of s4_sourced_request)
       (high_impact_of s4_sourced_request)
       (snd (requires_human_review_for_high_impact (intended_action s4_sourced_request)
               (confidence s4_sourced_request) (evidence_of s4_sourced_request)))
       (governance_of initial_state s4_sourced_request)
       (snd (requires_mandatory_review (get_policy_manager initial_state)
               (intended_action s4_sourced_request))))"
    by (simp add: decide_def)
  from overlay_never_fires[of "risk_of s4_sourced_request" "evidence_of s4_sourced_request"
       "rules_of s4_sourced_request" "aligned_of s4_sourced_request"
       "failed_of initial_state s4_sourced_request"
       "intended_action s4_sourced_request" "confidence s4_sourced_request"
       "claims_of s4_sourced_request"
       "high_impact_of s4_sourced_request"
       "snd (requires_human_review_for_high_impact (intended_action s4_sourced_request)
               (confidence s4_sourced_request) (evidence_of s4_sourced_request))"
       "governance_of initial_state s4_sourced_request"
       "snd (requires_mandatory_review (get_policy_manager initial_state)
               (intended_action s4_sourced_request))"
       s4_sourced_request initial_state env clk
       "first_response initial_state s4_sourced_request" st']
    c d sourced_allow sourced_valid
  show "valid_request s4_sourced_request
     \<and> fst (decide initial_state s4_sourced_request) = ALLOW
     \<and> risk_of s4_sourced_request < 0.6
     \<and> (\<exists>st'. check env clk initial_state s4_sourced_request
                 = Inr (first_response initial_state s4_sourced_request, st')
              \<and> verdict (first_response initial_state s4_sourced_request) = ALLOW)"
    by auto
qed

section \<open>High-impact actions\<close>

lemma governed_actions:
  assumes "policy_manager st = PolicyManager_new m"
    and "intended_action r = ''trade'' \<or> intended_action r = ''execute_code''"
  shows "governance_of st r"
  using assms
  by (cases m)
     (auto simp: governance_of_def get_policy_manager_def requires_mandatory_review_def
        text_eval)

lemma high_impact_action:
  assumes "valid_request r" "high_impact_of r"
  shows "intended_action r = ''trade'' \<or> intended_action r = ''execute_code''"
proof -
  from assms(1) have "lower (intended_action r) = intended_action r"
    by (simp add: valid_request_iff lower_valid_action)
  with assms(2) show ?thesis
    by (auto simp: high_impact_of_def requires_human_review_for_high_impact_def
        HIGH_IMPACT_ACTIONS_def split: if_splits)
qed

lemma mandatory_in_every_mode:
  "{''trade'', ''execute_code''} \<subseteq> mandatory_review_actions (PolicyManager_new m)"
  by (cases m) auto

text \<open>
  C8. The set of mandatory-review actions of each of the four policy modes holds
  \<open>trade\<close> and \<open>execute_code\<close>. So for every valid request with one of these two actions,
  in every mode, \<open>check\<close> returns \<open>REQUIRE_HUMAN_REVIEW\<close> by the governance rule, never
  \<open>BLOCK\<close>; and for no valid request does the response carry the policy tag of the
  critical-risk block (\<open>high_risk_block\<close>, priority 2) or of the high-impact policy
  (\<open>high_impact_policy\<close>, priority 6): these two branches of \<open>determine_verdict\<close> are
  never taken.
\<close>

theorem high_impact_actions_always_reviewed:
  assumes "valid_request r" and "policy_manager st = PolicyManager_new m"
  shows "{''trade'', ''execute_code''} \<subseteq> mandatory_review_actions (policy_manager st)
       \<and> (intended_action r \<in> {''trade'', ''execute_code''} \<longrightarrow>
            (\<exists>resp st'. check env clk st r = Inr (resp, st')
               \<and> verdict resp = REQUIRE_HUMAN_REVIEW
               \<and> applied_policies resp = [''mandatory_governance_review'']))
       \<and> (\<forall>resp st'. check env clk st r = Inr (resp, st') \<longrightarrow>
            ''high_risk_block'' \<notin> set (applied_policies resp)
            \<and> ''high_impact_policy'' \<notin> set (applied_policies resp)
            \<and> (intended_action r \<in> {''trade'', ''execute_code''} \<longrightarrow> verdict resp \<noteq> BLOCK))"
proof (intro conjI impI allI)
  show "{''trade'', ''execute_code''} \<subseteq> mandatory_review_actions (policy_manager st)"
    unfolding assms(2) by (rule mandatory_in_every_mode)
next
  assume a: "intended_action r \<in> {''trade'', ''execute_code''}"
  then have g: "governance_of st r" using governed_actions[OF assms(2)] by auto
  then have v: "fst (decide st r) = REQUIRE_HUMAN_REVIEW"
    and p: "fst (snd (snd (snd (decide st r)))) = [''mandatory_governance_review'']"
    by (simp_all add: decide_verdict decide_policies)
  from v have "fst (decide st r) \<noteq> BLOCK" by simp
  from check_returns_unblocked[OF this] obtain st' where
    "check env clk st r = Inr (first_response st r, st')" by blast
  with v p show "\<exists>resp st'. check env clk st r = Inr (resp, st')
               \<and> verdict resp = REQUIRE_HUMAN_REVIEW
               \<and> applied_policies resp = [''mandatory_governance_review'']"
    by (auto simp: first_response_simps)
next
  fix resp st'
  assume c: "check env clk st r = Inr (resp, st')"
  note resp = check_response[OF c]
  have hi: "high_impact_of r \<Longrightarrow> governance_of st r"
    using high_impact_action[OF assms(1)] governed_actions[OF assms(2)] by blast
  have act: "intended_action r = ''trade'' \<or> intended_action r = ''execute_code''
             \<Longrightarrow> governance_of st r"
    using governed_actions[OF assms(2)] by blast
  show "''high_risk_block'' \<notin> set (applied_policies resp)"
    using act by (auto simp: resp first_response_simps decide_policies)
  show "''high_impact_policy'' \<notin> set (applied_policies resp)"
    using hi by (auto simp: resp first_response_simps decide_policies)
  show "verdict resp \<noteq> BLOCK" if "intended_action r \<in> {''trade'', ''execute_code''}"
    using act that by (auto simp: resp first_response_simps decide_verdict)
qed

text \<open>Witness of C8: the trade request under the default mode.\<close>

theorem high_impact_actions_always_reviewed_witness:
  "\<forall>env clk. valid_request trade_request
     \<and> policy_manager initial_state = PolicyManager_new GENERAL_AI
     \<and> intended_action trade_request \<in> {''trade'', ''execute_code''}
     \<and> (\<exists>resp st'. check env clk initial_state trade_request = Inr (resp, st')
          \<and> verdict resp = REQUIRE_HUMAN_REVIEW
          \<and> applied_policies resp = [''mandatory_governance_review''])"
proof -
  have a: "intended_action trade_request \<in> {''trade'', ''execute_code''}"
    by (simp add: trade_request_def)
  show ?thesis
    using high_impact_actions_always_reviewed[OF trade_valid initial_policy] a trade_valid
      initial_policy by blast
qed


section \<open>The risk score\<close>

lemma action_impact_lookup:
  "(case map_of ACTION_IMPACT x of Some i \<Rightarrow> i | None \<Rightarrow> DEFAULT_ACTION_IMPACT) = spec_impact x"
  by (simp add: ACTION_IMPACT_def DEFAULT_ACTION_IMPACT_def spec_impact_def)

lemma evidence_factor_eq:
  "(if \<not> ev
    then (let factual_claims = filter is_factual claims
          in if factual_claims \<noteq> []
             then (let high_conf_factual = filter (\<lambda>c. c_confidence c > 0.6) factual_claims
                   in if high_conf_factual \<noteq> [] then 1.5 else 1.0)
             else 1.0)
    else 1.0) = spec_evidence_factor claims ev"
  by (auto simp: spec_evidence_factor_def Let_def filter_empty_conv list_ex_iff)

lemma claim_factor_eq:
  "min (1.0 + (real n * 0.05)) (1.3::real) = min 1.3 (1 + 0.05 * real n)"
  by (simp add: min.commute)

text \<open>The code computes the specification's formula on the lower-cased action.\<close>

lemma risk_formula:
  "calculate_risk_score c a claims ev = spec_risk c (lower a) claims ev"
  unfolding calculate_risk_score_def evidence_factor_eq action_impact_lookup
  unfolding Let_def claim_factor_eq spec_risk_def clamp01_def calculate_uncertainty_def
  by simp

lemma risk_bounds:
  "0 \<le> calculate_risk_score c a claims ev \<and> calculate_risk_score c a claims ev \<le> 1"
  by (simp add: risk_formula spec_risk_def clamp01_def)

text \<open>
  Counterexample to C6 as stated: for the action string \<open>TRADE\<close> the claim's impact is
  the default 0.5, so its formula gives 0.5 at confidence 0 with no claims; the code
  lower-cases the action before the lookup, finds 0.9 and returns 0.9.
\<close>

theorem risk_score_counterexample:
  "calculate_risk_score 0 ''TRADE'' [] True \<noteq> spec_risk 0 ''TRADE'' [] True"
  by (simp add: risk_formula spec_risk_def clamp01_def spec_impact_def
      spec_evidence_factor_def text_eval)

text \<open>
  C6, amended. For every confidence, action string, claim list and evidence flag,
  \<open>calculate_risk_score\<close> returns the clamp to [0,1] of
  (1 - c) * impact * evidence factor * min(1.3, 1 + 0.05 * number of claims),
  where the impact is that of the lower-cased action string (0.2 for answer, 0.5 for
  email, 0.9 for trade, 0.95 for execute_code, 0.5 for any other) and the evidence factor
  is 1.5 exactly when evidence is absent and some factual claim has confidence above
  0.6, else 1. The result lies in [0,1]. For a valid request the action is lower-case
  already, so the risk score of the response is the formula on the action itself, and
  it lies in [0,1].
\<close>

theorem risk_score_formula:
  "calculate_risk_score c a claims ev = spec_risk c (lower a) claims ev
   \<and> 0 \<le> calculate_risk_score c a claims ev \<and> calculate_risk_score c a claims ev \<le> 1
   \<and> (valid_request r \<longrightarrow>
        risk_of r = spec_risk (confidence r) (intended_action r) (claims_of r) (evidence_of r))
   \<and> (valid_request r \<longrightarrow> check env clk st r = Inr (resp, st') \<longrightarrow>
        risk_score resp = risk_of r \<and> 0 \<le> risk_score resp \<and> risk_score resp \<le> 1)"
proof (intro conjI impI)
  show "calculate_risk_score c a claims ev = spec_risk c (lower a) claims ev"
    by (rule risk_formula)
  show "0 \<le> calculate_risk_score c a claims ev" "calculate_risk_score c a claims ev \<le> 1"
    using risk_bounds by blast+
next
  assume "valid_request r"
  then have "lower (intended_action r) = intended_action r"
    by (simp add: valid_request_iff lower_valid_action)
  then show "risk_of r = spec_risk (confidence r) (intended_action r) (claims_of r) (evidence_of r)"
    by (simp add: risk_of_def risk_formula)
next
  assume "check env clk st r = Inr (resp, st')"
  from check_response[OF this] show "risk_score resp = risk_of r"
    by (simp add: first_response_simps)
  then show "0 \<le> risk_score resp" "risk_score resp \<le> 1"
    using risk_bounds[of "confidence r" "intended_action r" "claims_of r" "evidence_of r"]
    by (simp_all add: risk_of_def)
qed

text \<open>
  Witness of C6 amended: the trade request in the initial state; and the upper-case
  action gets the impact of \<open>trade\<close>.
\<close>

theorem risk_score_formula_witness:
  "\<forall>env clk. valid_request trade_request
     \<and> (\<exists>st'. check env clk initial_state trade_request
                 = Inr (first_response initial_state trade_request, st')
              \<and> 0 \<le> risk_score (first_response initial_state trade_request)
              \<and> risk_score (first_response initial_state trade_request) \<le> 1)
     \<and> calculate_risk_score 0 ''TRADE'' [] True = spec_risk 0 ''trade'' [] True"
proof (intro allI conjI)
  fix env clk
  show "valid_request trade_request" by (rule trade_valid)
  from trade_check obtain st' where
    c: "check env clk initial_state trade_request
          = Inr (first_response initial_state trade_request, st')" by blast
  with risk_score_formula[of _ _ _ _ trade_request env clk initial_state
      "first_response initial_state trade_request" st'] trade_valid
  show "\<exists>st'. check env clk initial_state trade_request
                 = Inr (first_response initial_state trade_request, st')
              \<and> 0 \<le> risk_score (first_response initial_state trade_request)
              \<and> risk_score (first_response initial_state trade_request) \<le> 1"
    by blast
  have "lower ''TRADE'' = ''trade''" by (simp add: text_eval)
  with risk_score_formula[of 0 "''TRADE''" "[]" True]
  show "calculate_risk_score 0 ''TRADE'' [] True = spec_risk 0 ''trade'' [] True"
    by simp
qed

section \<open>The evidence check\<close>

lemma strip_Nil: "strip [] = []"
  by (simp add: strip_def)

lemma nonblank_filter:
  "filter (\<lambda>s. s \<noteq> [] \<and> strip s \<noteq> []) ss = filter (\<lambda>s. strip s \<noteq> []) ss"
  by (rule filter_cong) (auto simp: strip_Nil)

text \<open>
  C7. For every claim list and source list (or none), \<open>check_evidence\<close> passes iff the
  list \<open>F\<close> of the factual claims with confidence above 0.6 is empty or the number of
  sources whose trimmed text is not empty is at least max(1, |F| div 3); and whenever it
  fails, the failed claims it returns are the texts of the claims of \<open>F\<close>, in order.
\<close>

theorem evidence_check:
  "(fst (check_evidence claims srcs) \<longleftrightarrow> spec_evidence_passes claims srcs)
   \<and> (\<not> fst (check_evidence claims srcs) \<longrightarrow>
        snd (snd (check_evidence claims srcs)) = map claim_text (spec_F claims))"
proof -
  let ?F = "spec_F claims"
  let ?ss = "case srcs of None \<Rightarrow> [] | Some ss \<Rightarrow> ss"
  let ?V = "spec_V srcs"
  have V: "filter (\<lambda>s. s \<noteq> [] \<and> strip s \<noteq> []) ?ss = ?V"
    by (simp add: nonblank_filter spec_V_def)
  have F: "filter (\<lambda>c. is_factual c \<and> c_confidence c > CONFIDENCE_THRESHOLD_EVIDENCE_REQUIRED)
             claims = ?F"
    by (simp add: spec_F_def CONFIDENCE_THRESHOLD_EVIDENCE_REQUIRED_def)
  have len: "length ?V \<le> length ?ss" by (simp add: spec_V_def)
  have eq: "check_evidence claims srcs =
     (if ?F = [] then (True, [Txt ''No high-confidence factual claims requiring evidence''], [])
      else if \<not> length ?ss > 0
      then (False, [Txt ''High confidence factual claims require evidence but no sources provided''],
            map claim_text ?F)
      else if ?V = []
      then (False, [Txt ''Sources provided but all are empty''], map claim_text ?F)
      else if length ?V < max 1 (length ?F div 3)
      then (False,
            [Txt ''Insufficient sources: '', Num (length ?V), Txt '' provided, '',
             Num (max 1 (length ?F div 3)), Txt '' required for '', Num (length ?F),
             Txt '' factual claims''],
            map claim_text ?F)
      else (True,
            [Txt ''Evidence check passed: '', Num (length ?V), Txt '' sources for '',
             Num (length ?F), Txt '' factual claims''],
            []))"
    unfolding check_evidence_def Let_def F V by (rule refl)
  show ?thesis
  proof (cases "?F = []")
    case True
    then show ?thesis by (simp add: eq spec_evidence_passes_def)
  next
    case False
    show ?thesis
    proof (cases "?V = []")
      case True
      with False show ?thesis by (simp add: eq spec_evidence_passes_def)
    next
      case V: False
      with len have "length ?ss > 0" by (cases ?ss) auto
      moreover from V have "Suc 0 \<le> length ?V" by (simp add: Suc_le_eq)
      ultimately show ?thesis using False V
        by (auto simp add: eq spec_evidence_passes_def not_less max_def)
    qed
  qed
qed

text \<open>Witness of C7: the claim of S4 with an empty source list fails the check.\<close>

theorem evidence_check_witness:
  "\<not> fst (check_evidence [\<lparr>claim_text = s4_output, is_factual = True, c_confidence = 0.9\<rparr>]
             (Some []))
   \<and> snd (snd (check_evidence
                  [\<lparr>claim_text = s4_output, is_factual = True, c_confidence = 0.9\<rparr>] (Some [])))
       = [s4_output]"
proof -
  let ?cl = "[\<lparr>claim_text = s4_output, is_factual = True, c_confidence = 0.9\<rparr>]"
  have F: "spec_F ?cl = ?cl" by (simp add: spec_F_def)
  have "\<not> spec_evidence_passes ?cl (Some [])"
    by (simp add: spec_evidence_passes_def F spec_V_def)
  with evidence_check[of ?cl "Some []"] F show ?thesis by simp
qed

section \<open>The false-negative rate of the learning memory\<close>

lemma increment_Inr: "increment k d = Inr d' \<Longrightarrow> k \<in> dom d \<and> dom d' = dom d"
  by (auto simp: increment_def split: option.splits if_splits)

lemma inv_new:
  "memory_inv (LearningMemory_new Missing)" "memory_inv (LearningMemory_new Unreadable)"
  by (auto simp: memory_inv_def LearningMemory_new_def fresh_memory_def stat_keys_def)

lemma save_memory_simps:
  "statistics (memory (save_memory lm)) = statistics (memory lm)"
  "memory_file (save_memory lm) = Stored (memory lm)"
  by (simp_all add: save_memory_def)

lemma inv_blocked:
  assumes "memory_inv lm" "record_blocked_decision now rq rs lm = Inr lm'"
  shows "memory_inv lm'"
proof -
  from assms(2) obtain s' d where
    s': "increment ''total_blocks'' (statistics (memory lm)) = Inr s'"
    and lm': "lm' = save_memory (lm\<lparr>memory := d\<lparr>statistics := s'\<rparr>\<rparr>)"
    by (auto simp: record_blocked_decision_def Let_def LEARNING_ENABLED_def split: sum.splits)
  from increment_Inr[OF s'] have "dom s' = dom (statistics (memory lm))" by simp
  with assms(1) show ?thesis by (simp add: lm' memory_inv_def save_memory_simps)
qed

lemma inv_override:
  assumes "memory_inv lm" "record_human_override now v1 v2 why rq lm = Inr lm'"
  shows "memory_inv lm'"
proof -
  let ?s0 = "statistics (memory lm)"
  from assms(2) obtain s1 where s1: "increment ''total_overrides'' ?s0 = Inr s1"
    by (auto simp: record_human_override_def Let_def LEARNING_ENABLED_def split: sum.splits)
  from increment_Inr[OF s1] have d1: "dom s1 = dom ?s0" by simp
  have *: "dom (statistics (memory lm')) = dom ?s0 \<and> memory_file lm' = Stored (memory lm')"
  proof (cases "v1 = BLOCK \<and> v2 = ALLOW")
    case True
    with assms(2) s1 obtain s2 where s2: "increment ''false_positive_count'' s1 = Inr s2"
      and "statistics (memory lm') = s2" "memory_file lm' = Stored (memory lm')"
      by (auto simp: record_human_override_def Let_def LEARNING_ENABLED_def save_memory_def
          split: sum.splits)
    with increment_Inr[OF s2] d1 show ?thesis by simp
  next
    case False
    show ?thesis
    proof (cases "v1 = ALLOW \<and> v2 = BLOCK")
      case True
      with assms(2) s1 obtain s2 where s2: "increment ''false_negative_count'' s1 = Inr s2"
        and "statistics (memory lm') = s2" "memory_file lm' = Stored (memory lm')"
        by (auto simp: record_human_override_def Let_def LEARNING_ENABLED_def save_memory_def
            split: sum.splits)
      with increment_Inr[OF s2] d1 show ?thesis by simp
    next
      case F2: False
      with False assms(2) s1 have "statistics (memory lm') = s1"
        "memory_file lm' = Stored (memory lm')"
        by (auto simp: record_human_override_def Let_def LEARNING_ENABLED_def save_memory_def)
      with d1 show ?thesis by simp
    qed
  qed
  with assms(1) show ?thesis by (simp add: memory_inv_def)
qed

lemma inv_restart: "memory_inv lm \<Longrightarrow> memory_inv (LearningMemory_new (memory_file lm))"
  by (cases "memory_file lm")
     (auto simp: memory_inv_def LearningMemory_new_def fresh_memory_def stat_keys_def)

lemma reachable_inv: "reachable_memory lm \<Longrightarrow> memory_inv lm"
  by (induction rule: reachable_memory.induct)
     (auto intro: inv_new inv_blocked inv_override inv_restart)

lemma inv_no_total_allows:
  assumes "memory_inv lm"
  shows "statistics (memory lm) ''total_allows'' = None"
proof -
  have "''total_allows'' \<notin> stat_keys" by (simp add: stat_keys_def)
  with assms have "''total_allows'' \<notin> dom (statistics (memory lm))"
    by (simp add: memory_inv_def)
  then show ?thesis by (simp add: domIff)
qed

lemma stored_no_total_allows:
  assumes "memory_inv lm" "memory_file lm = Stored d"
  shows "statistics d ''total_allows'' = None"
proof -
  have "''total_allows'' \<notin> stat_keys" by (simp add: stat_keys_def)
  with assms have "''total_allows'' \<notin> dom (statistics d)"
    by (simp add: memory_inv_def)
  then show ?thesis by (simp add: domIff)
qed

lemma inv_has_key:
  assumes "memory_inv lm" "k \<in> stat_keys"
  shows "\<exists>n. statistics (memory lm) k = Some n"
proof -
  from assms have "k \<in> dom (statistics (memory lm))" by (simp add: memory_inv_def)
  then show ?thesis by (auto simp: domIff)
qed

text \<open>In a reachable memory the counter that \<open>check\<close> increments on a block is present.\<close>

lemma reachable_total_blocks:
  "reachable_memory lm \<Longrightarrow> statistics (memory lm) ''total_blocks'' \<noteq> None"
  using inv_has_key[OF reachable_inv, of lm "''total_blocks''"] by (auto simp: stat_keys_def)

lemma inv_fnr: "memory_inv lm \<Longrightarrow> get_false_negative_rate lm = Inr 0"
  by (simp add: get_false_negative_rate_def inv_no_total_allows)

lemma inv_fpr:
  assumes "memory_inv lm"
  shows "\<exists>x. get_false_positive_rate lm = Inr x"
proof -
  from inv_has_key[OF assms, of "''total_blocks''"] obtain n where
    "statistics (memory lm) ''total_blocks'' = Some n" by (auto simp: stat_keys_def)
  moreover from inv_has_key[OF assms, of "''false_positive_count''"] obtain m where
    "statistics (memory lm) ''false_positive_count'' = Some m" by (auto simp: stat_keys_def)
  ultimately show ?thesis by (simp add: get_false_positive_rate_def)
qed

lemma inv_stats:
  assumes "memory_inv lm"
  shows "\<exists>s. get_statistics lm = Inr s \<and> s ''false_negative_rate'' = Some 0"
proof -
  from inv_fpr[OF assms] obtain x where "get_false_positive_rate lm = Inr x" ..
  then show ?thesis by (simp add: get_statistics_def inv_fnr[OF assms])
qed

text \<open>One human override of an \<open>ALLOW\<close> into a \<open>BLOCK\<close>, recorded in a fresh memory.\<close>

lemma override_example:
  "\<exists>lm. record_human_override ''t'' ALLOW BLOCK ''missed'' None (LearningMemory_new Missing)
           = Inr lm
     \<and> statistics (memory lm) ''false_negative_count'' = Some 1"
  by (simp add: record_human_override_def LearningMemory_new_def fresh_memory_def Let_def
      LEARNING_ENABLED_def increment_def save_memory_def)

text \<open>
  C10. In every state of the learning memory that the program can reach (from an absent
  or unreadable file, by \<open>record_blocked_decision\<close>, \<open>record_human_override\<close> and
  restarts), the statistics hold no \<open>total_allows\<close> key, in memory and in the file
  written; so \<open>get_false_negative_rate\<close> returns 0 and \<open>get_statistics\<close> reports a
  \<open>false_negative_rate\<close> of 0. This is so in a reachable state whose
  \<open>false_negative_count\<close> is positive, too.
\<close>

theorem false_negative_rate_always_zero:
  "(reachable_memory lm \<longrightarrow>
      statistics (memory lm) ''total_allows'' = None
      \<and> (\<forall>d. memory_file lm = Stored d \<longrightarrow> statistics d ''total_allows'' = None)
      \<and> get_false_negative_rate lm = Inr 0
      \<and> (\<exists>s. get_statistics lm = Inr s \<and> s ''false_negative_rate'' = Some 0))
   \<and> (\<exists>lm. reachable_memory lm
         \<and> (\<exists>n. statistics (memory lm) ''false_negative_count'' = Some n \<and> n > 0)
         \<and> get_false_negative_rate lm = Inr 0)"
proof (intro conjI impI)
  assume r: "reachable_memory lm"
  then have inv: "memory_inv lm" by (rule reachable_inv)
  show "statistics (memory lm) ''total_allows'' = None" by (rule inv_no_total_allows[OF inv])
  show "\<forall>d. memory_file lm = Stored d \<longrightarrow> statistics d ''total_allows'' = None"
    using stored_no_total_allows[OF inv] by blast
  show "get_false_negative_rate lm = Inr 0" by (rule inv_fnr[OF inv])
  show "\<exists>s. get_statistics lm = Inr s \<and> s ''false_negative_rate'' = Some 0"
    by (rule inv_stats[OF inv])
next
  from override_example obtain lm where
    lm: "record_human_override ''t'' ALLOW BLOCK ''missed'' None (LearningMemory_new Missing)
           = Inr lm"
    and n: "statistics (memory lm) ''false_negative_count'' = Some 1" by blast
  have "reachable_memory lm" using reachable_memory.override[OF start_missing lm] .
  with n show "\<exists>lm. reachable_memory lm
         \<and> (\<exists>n. statistics (memory lm) ''false_negative_count'' = Some n \<and> n > 0)
         \<and> get_false_negative_rate lm = Inr 0"
    using inv_fnr[OF reachable_inv] by (intro exI[of _ lm]) simp
qed

text \<open>
  Witness of C10: the memory after one missed block is reachable, counts one false
  negative, and its false-negative rate is 0.
\<close>

theorem false_negative_rate_always_zero_witness:
  "\<exists>lm. record_human_override ''t'' ALLOW BLOCK ''missed'' None (LearningMemory_new Missing)
           = Inr lm
     \<and> reachable_memory lm
     \<and> statistics (memory lm) ''false_negative_count'' = Some 1
     \<and> statistics (memory lm) ''total_allows'' = None
     \<and> get_false_negative_rate lm = Inr 0"
proof -
  from override_example obtain lm where
    lm: "record_human_override ''t'' ALLOW BLOCK ''missed'' None (LearningMemory_new Missing)
           = Inr lm"
    and n: "statistics (memory lm) ''false_negative_count'' = Some 1" by blast
  have r: "reachable_memory lm" using reachable_memory.override[OF start_missing lm] .
  with false_negative_rate_always_zero[of lm]
  have "statistics (memory lm) ''total_allows'' = None" "get_false_negative_rate lm = Inr 0"
    by blast+
  with lm n r show ?thesis by blast
qed

end
